theory Spec2Isabelle
  imports Main "HOL-Library.Word"
begin

unbundle bit_operations_syntax

section \<open>Python values\<close>

text \<open>
  The module \<^verbatim>\<open>cryptography/x509/base.py\<close> is dynamically typed: its constructors and
  builder methods receive arbitrary objects and decide by \<^verbatim>\<open>isinstance\<close>, by
  \<^verbatim>\<open>is None\<close> and by truth value what to do with them. The objects that reach the
  modelled operations are collected in one datatype, \<open>pyval\<close>; every exception the
  source raises is a value of \<open>error\<close>, with the message of the source.
\<close>

type_synonym byte = "8 word"

datatype error =
    TypeError string
  | ValueError string
  | AttributeError string
  | AssertionError
  | PyAsn1Error

datatype ObjectIdentifier = ObjectIdentifier (dotted_string: string)

datatype Name = Name "(ObjectIdentifier \<times> string) list"

text \<open>
  \<^verbatim>\<open>datetime.datetime\<close>: the wall-clock fields and, for an aware object, the UTC
  offset in minutes. A naive object has no offset.
\<close>

record datetime =
  year :: nat
  month :: nat
  day :: nat
  hour :: nat
  minute :: nat
  second :: nat
  microsecond :: nat
  utcoffset :: "int option"

datatype Version = v1 | v3

datatype ReasonFlags =
    unspecified
  | key_compromise
  | ca_compromise
  | affiliation_changed
  | superseded
  | cessation_of_operation
  | certificate_hold
  | privilege_withdrawn
  | aa_compromise
  | remove_from_crl

text \<open>The four classes of the \<^verbatim>\<open>ipaddress\<close> module: an address, or a network with its prefix length.\<close>

datatype ipaddress =
    IPv4Address nat
  | IPv6Address nat
  | IPv4Network nat nat
  | IPv6Network nat nat

text \<open>
  The classes registered with the \<^verbatim>\<open>GeneralName\<close> interface, each with the value its
  constructor accepted (the constructors check the type of the value).
\<close>

datatype GeneralName =
    RFC822Name string
  | DNSName string
  | UniformResourceIdentifier string
  | DirectoryName Name
  | RegisteredID ObjectIdentifier
  | IPAddress ipaddress
  | OtherName ObjectIdentifier "byte list"

text \<open>The key classes \<^verbatim>\<open>CertificateBuilder.public_key\<close> tells apart; any other key class is \<open>OtherKey\<close>.\<close>

datatype PublicKeyClass = DSAPublicKey | RSAPublicKey | EllipticCurvePublicKey | OtherKey

text \<open>
  A public key is an opaque collaborator; all the module asks of it is its DER encoded
  SubjectPublicKeyInfo, which the model keeps in the key object.
\<close>

datatype pyval =
    PyNone
  | PyBool bool
  | PyInt int
  | PyText string
  | PyBytes "byte list"
  | PyList "pyval list"
  | PyFrozenset "pyval list"
  | PyDatetime datetime
  | PyObjectIdentifier ObjectIdentifier
  | PyName Name
  | PyNameAttribute ObjectIdentifier string
  | PyReasonFlags ReasonFlags
  | PyIP ipaddress
  | PyPublicKey PublicKeyClass "byte list"
  | PyGeneralName GeneralName
  | DistributionPoint pyval pyval pyval pyval
  | ExtendedKeyUsage pyval
  | OCSPNoCheck
  | BasicConstraints pyval pyval
  | KeyUsage pyval pyval pyval pyval pyval pyval pyval pyval pyval
  | AuthorityInformationAccess pyval
  | CertificatePolicies pyval
  | SubjectKeyIdentifier pyval
  | NameConstraints pyval pyval
  | CRLDistributionPoints pyval
  | InhibitAnyPolicy pyval
  | SubjectAlternativeName pyval
  | IssuerAlternativeName pyval
  | AuthorityKeyIdentifier pyval pyval pyval


subsection \<open>Truth values, iteration and \<^verbatim>\<open>isinstance\<close>\<close>

text \<open>
  The truth value Python gives an object: \<^verbatim>\<open>None\<close>, \<^verbatim>\<open>False\<close>, zero and empty
  containers are false; an object of a class that defines \<^verbatim>\<open>__len__\<close> is false when its
  length is zero; every other object is true.
\<close>

fun truthy :: "pyval \<Rightarrow> bool" where
  "truthy PyNone = False"
| "truthy (PyBool b) = b"
| "truthy (PyInt n) = (n \<noteq> 0)"
| "truthy (PyText s) = (s \<noteq> [])"
| "truthy (PyBytes bs) = (bs \<noteq> [])"
| "truthy (PyList xs) = (xs \<noteq> [])"
| "truthy (PyFrozenset xs) = (xs \<noteq> [])"
| "truthy (PyName (Name attributes)) = (attributes \<noteq> [])"
| "truthy (ExtendedKeyUsage usages) = truthy usages"
| "truthy (AuthorityInformationAccess descriptions) = truthy descriptions"
| "truthy (CertificatePolicies policies) = truthy policies"
| "truthy (CRLDistributionPoints distribution_points) = truthy distribution_points"
| "truthy (SubjectAlternativeName general_names) = truthy general_names"
| "truthy (IssuerAlternativeName general_names) = truthy general_names"
| "truthy _ = True"

text \<open>
  The elements a \<^verbatim>\<open>for\<close> loop or a generator expression draws from an object; an
  object that is not iterable raises \<^verbatim>\<open>TypeError\<close>. Bytes iterate as integers.
\<close>

fun py_iter :: "pyval \<Rightarrow> error + pyval list" where
  "py_iter (PyList xs) = Inr xs"
| "py_iter (PyFrozenset xs) = Inr xs"
| "py_iter (PyText s) = Inr (map (\<lambda>c. PyText [c]) s)"
| "py_iter (PyBytes bs) = Inr (map (\<lambda>b. PyInt (uint b)) bs)"
| "py_iter (PyName (Name attributes)) = Inr (map (\<lambda>(t, v). PyNameAttribute t v) attributes)"
| "py_iter (ExtendedKeyUsage usages) = py_iter usages"
| "py_iter (AuthorityInformationAccess descriptions) = py_iter descriptions"
| "py_iter (CertificatePolicies policies) = py_iter policies"
| "py_iter (CRLDistributionPoints distribution_points) = py_iter distribution_points"
| "py_iter (SubjectAlternativeName general_names) = py_iter general_names"
| "py_iter (IssuerAlternativeName general_names) = py_iter general_names"
| "py_iter _ = Inl (TypeError ''object is not iterable'')"

text \<open>\<^verbatim>\<open>all(p(x) for x in v)\<close> and \<^verbatim>\<open>any(p(x) for x in v)\<close>.\<close>

definition py_all :: "(pyval \<Rightarrow> bool) \<Rightarrow> pyval \<Rightarrow> error + bool" where
  "py_all p v = (case py_iter v of Inl e \<Rightarrow> Inl e | Inr xs \<Rightarrow> Inr (list_all p xs))"

definition py_any :: "(pyval \<Rightarrow> bool) \<Rightarrow> pyval \<Rightarrow> error + bool" where
  "py_any p v = (case py_iter v of Inl e \<Rightarrow> Inl e | Inr xs \<Rightarrow> Inr (list_ex p xs))"

fun is_GeneralName :: "pyval \<Rightarrow> bool" where
  "is_GeneralName (PyGeneralName g) = True"
| "is_GeneralName _ = False"

fun is_IPAddress :: "pyval \<Rightarrow> bool" where
  "is_IPAddress (PyGeneralName (IPAddress v)) = True"
| "is_IPAddress _ = False"

text \<open>\<^verbatim>\<open>isinstance(name.value, (ipaddress.IPv4Network, ipaddress.IPv6Network))\<close> for an \<^verbatim>\<open>IPAddress\<close> name.\<close>

fun value_is_network :: "pyval \<Rightarrow> bool" where
  "value_is_network (PyGeneralName (IPAddress (IPv4Network a p))) = True"
| "value_is_network (PyGeneralName (IPAddress (IPv6Network a p))) = True"
| "value_is_network _ = False"

fun is_Name :: "pyval \<Rightarrow> bool" where
  "is_Name (PyName n) = True"
| "is_Name _ = False"

fun is_frozenset :: "pyval \<Rightarrow> bool" where
  "is_frozenset (PyFrozenset xs) = True"
| "is_frozenset _ = False"

fun is_ReasonFlags :: "pyval \<Rightarrow> bool" where
  "is_ReasonFlags (PyReasonFlags r) = True"
| "is_ReasonFlags _ = False"

fun is_datetime :: "pyval \<Rightarrow> bool" where
  "is_datetime (PyDatetime t) = True"
| "is_datetime _ = False"

text \<open>\<^verbatim>\<open>six.integer_types\<close>: \<^verbatim>\<open>bool\<close> is a subclass of \<^verbatim>\<open>int\<close>.\<close>

fun is_integer :: "pyval \<Rightarrow> bool" where
  "is_integer (PyInt n) = True"
| "is_integer (PyBool b) = True"
| "is_integer _ = False"

fun int_value :: "pyval \<Rightarrow> int" where
  "int_value (PyInt n) = n"
| "int_value (PyBool b) = of_bool b"
| "int_value _ = 0"

text \<open>The key classes \<^verbatim>\<open>CertificateBuilder.public_key\<close> accepts.\<close>

fun is_supported_public_key :: "pyval \<Rightarrow> bool" where
  "is_supported_public_key (PyPublicKey OtherKey der) = False"
| "is_supported_public_key (PyPublicKey c der) = True"
| "is_supported_public_key _ = False"

subsection \<open>Datetimes and the Unix epoch\<close>

definition UNIX_EPOCH :: datetime where
  "UNIX_EPOCH = \<lparr>year = 1970, month = 1, day = 1, hour = 0, minute = 0, second = 0,
                  microsecond = 0, utcoffset = None\<rparr>"

definition wall_clock :: "datetime \<Rightarrow> nat list" where
  "wall_clock t = [year t, month t, day t, hour t, minute t, second t, microsecond t]"

fun lex_le :: "nat list \<Rightarrow> nat list \<Rightarrow> bool" where
  "lex_le (x # xs) (y # ys) = (x < y \<or> (x = y \<and> lex_le xs ys))"
| "lex_le [] ys = True"
| "lex_le (x # xs) [] = False"

text \<open>
  \<^verbatim>\<open>time <= _UNIX_EPOCH\<close>. The epoch is a naive datetime; Python compares two naive
  datetimes by their fields, and raises \<^verbatim>\<open>TypeError\<close> when an aware datetime is compared
  with a naive one.
\<close>

definition le_UNIX_EPOCH :: "datetime \<Rightarrow> error + bool" where
  "le_UNIX_EPOCH time =
     (case utcoffset time of
        Some offset \<Rightarrow> Inl (TypeError ''can't compare offset-naive and offset-aware datetimes'')
      | None \<Rightarrow> Inr (lex_le (wall_clock time) (wall_clock UNIX_EPOCH)))"


section \<open>Key-identifier derivation\<close>

subsection \<open>The collaborators: SHA-1, the DER decoder, \<^verbatim>\<open>utils\<close>\<close>


















text \<open>
  Modelled from the spec: \<^verbatim>\<open>utils.bit_length\<close> (\<^verbatim>\<open>cryptography/utils.py\<close>) is not among
  the sources. The spec speaks of the ``bit-length'' of the serial number: the number of
  binary digits of the absolute value, as Python's \<^verbatim>\<open>int.bit_length\<close>.
\<close>

fun bit_length_nat :: "nat \<Rightarrow> nat" where
  "bit_length_nat n = (if n = 0 then 0 else Suc (bit_length_nat (n div 2)))"

declare bit_length_nat.simps [simp del]

definition bit_length :: "int \<Rightarrow> nat" where
  "bit_length n = bit_length_nat (nat \<bar>n\<bar>)"







subsection \<open>\<^verbatim>\<open>_key_identifier_from_public_key\<close>\<close>





section \<open>General names\<close>









section \<open>Extension values\<close>

text \<open>
  Modelled from the spec: the constants of \<^verbatim>\<open>ExtensionOID\<close> (\<^verbatim>\<open>cryptography/x509/oid.py\<close>)
  are not among the sources. The spec has each extension class expose ``its own fixed
  OID as a class-level constant'', a dotted-integer identifier; the model gives each
  constant the identifier RFC 5280 and RFC 6960 assign to the extension.
\<close>

definition ExtensionOID_SUBJECT_KEY_IDENTIFIER :: ObjectIdentifier where
  "ExtensionOID_SUBJECT_KEY_IDENTIFIER = ObjectIdentifier ''2.5.29.14''"

definition ExtensionOID_KEY_USAGE :: ObjectIdentifier where
  "ExtensionOID_KEY_USAGE = ObjectIdentifier ''2.5.29.15''"

definition ExtensionOID_SUBJECT_ALTERNATIVE_NAME :: ObjectIdentifier where
  "ExtensionOID_SUBJECT_ALTERNATIVE_NAME = ObjectIdentifier ''2.5.29.17''"

definition ExtensionOID_ISSUER_ALTERNATIVE_NAME :: ObjectIdentifier where
  "ExtensionOID_ISSUER_ALTERNATIVE_NAME = ObjectIdentifier ''2.5.29.18''"

definition ExtensionOID_BASIC_CONSTRAINTS :: ObjectIdentifier where
  "ExtensionOID_BASIC_CONSTRAINTS = ObjectIdentifier ''2.5.29.19''"

definition ExtensionOID_NAME_CONSTRAINTS :: ObjectIdentifier where
  "ExtensionOID_NAME_CONSTRAINTS = ObjectIdentifier ''2.5.29.30''"

definition ExtensionOID_CRL_DISTRIBUTION_POINTS :: ObjectIdentifier where
  "ExtensionOID_CRL_DISTRIBUTION_POINTS = ObjectIdentifier ''2.5.29.31''"

definition ExtensionOID_CERTIFICATE_POLICIES :: ObjectIdentifier where
  "ExtensionOID_CERTIFICATE_POLICIES = ObjectIdentifier ''2.5.29.32''"

definition ExtensionOID_AUTHORITY_KEY_IDENTIFIER :: ObjectIdentifier where
  "ExtensionOID_AUTHORITY_KEY_IDENTIFIER = ObjectIdentifier ''2.5.29.35''"

definition ExtensionOID_EXTENDED_KEY_USAGE :: ObjectIdentifier where
  "ExtensionOID_EXTENDED_KEY_USAGE = ObjectIdentifier ''2.5.29.37''"

definition ExtensionOID_INHIBIT_ANY_POLICY :: ObjectIdentifier where
  "ExtensionOID_INHIBIT_ANY_POLICY = ObjectIdentifier ''2.5.29.54''"

definition ExtensionOID_AUTHORITY_INFORMATION_ACCESS :: ObjectIdentifier where
  "ExtensionOID_AUTHORITY_INFORMATION_ACCESS = ObjectIdentifier ''1.3.6.1.5.5.7.1.1''"

definition ExtensionOID_OCSP_NO_CHECK :: ObjectIdentifier where
  "ExtensionOID_OCSP_NO_CHECK = ObjectIdentifier ''1.3.6.1.5.5.7.48.1.5''"

text \<open>
  The class attribute \<^verbatim>\<open>oid\<close> of the classes registered with the \<^verbatim>\<open>ExtensionType\<close>
  interface; an object of any other class is not an \<^verbatim>\<open>ExtensionType\<close>.
\<close>

fun ExtensionType_oid :: "pyval \<Rightarrow> ObjectIdentifier option" where
  "ExtensionType_oid (ExtendedKeyUsage u) = Some ExtensionOID_EXTENDED_KEY_USAGE"
| "ExtensionType_oid OCSPNoCheck = Some ExtensionOID_OCSP_NO_CHECK"
| "ExtensionType_oid (BasicConstraints ca p) = Some ExtensionOID_BASIC_CONSTRAINTS"
| "ExtensionType_oid (KeyUsage ds cc ke de ka kcs cs eo dc) = Some ExtensionOID_KEY_USAGE"
| "ExtensionType_oid (AuthorityInformationAccess d) =
     Some ExtensionOID_AUTHORITY_INFORMATION_ACCESS"
| "ExtensionType_oid (CertificatePolicies p) = Some ExtensionOID_CERTIFICATE_POLICIES"
| "ExtensionType_oid (SubjectKeyIdentifier d) = Some ExtensionOID_SUBJECT_KEY_IDENTIFIER"
| "ExtensionType_oid (NameConstraints p e) = Some ExtensionOID_NAME_CONSTRAINTS"
| "ExtensionType_oid (CRLDistributionPoints d) = Some ExtensionOID_CRL_DISTRIBUTION_POINTS"
| "ExtensionType_oid (InhibitAnyPolicy n) = Some ExtensionOID_INHIBIT_ANY_POLICY"
| "ExtensionType_oid (SubjectAlternativeName g) = Some ExtensionOID_SUBJECT_ALTERNATIVE_NAME"
| "ExtensionType_oid (IssuerAlternativeName g) = Some ExtensionOID_ISSUER_ALTERNATIVE_NAME"
| "ExtensionType_oid (AuthorityKeyIdentifier k i n) =
     Some ExtensionOID_AUTHORITY_KEY_IDENTIFIER"
| "ExtensionType_oid _ = None"

definition is_ExtensionType :: "pyval \<Rightarrow> bool" where
  "is_ExtensionType v = (ExtensionType_oid v \<noteq> None)"

text \<open>\<^verbatim>\<open>extension.oid\<close> as an object: the constant, or no attribute.\<close>

definition oid_attribute :: "pyval \<Rightarrow> pyval" where
  "oid_attribute v =
     (case ExtensionType_oid v of None \<Rightarrow> PyNone | Some i \<Rightarrow> PyObjectIdentifier i)"

subsection \<open>\<^verbatim>\<open>Extension\<close>\<close>

record Extension =
  oid :: ObjectIdentifier
  critical :: bool
  value' :: pyval

fun is_ObjectIdentifier :: "pyval \<Rightarrow> bool" where
  "is_ObjectIdentifier (PyObjectIdentifier i) = True"
| "is_ObjectIdentifier _ = False"

fun is_bool :: "pyval \<Rightarrow> bool" where
  "is_bool (PyBool b) = True"
| "is_bool _ = False"

text \<open>The identifier an \<^verbatim>\<open>ObjectIdentifier\<close> object stands for; used after the \<^verbatim>\<open>isinstance\<close> check only.\<close>

fun the_ObjectIdentifier :: "pyval \<Rightarrow> ObjectIdentifier" where
  "the_ObjectIdentifier (PyObjectIdentifier i) = i"
| "the_ObjectIdentifier _ = ObjectIdentifier []"

definition Extension_init :: "pyval \<Rightarrow> pyval \<Rightarrow> pyval \<Rightarrow> error + Extension" where
  "Extension_init oid_arg critical_arg value_arg =
     (if \<not> is_ObjectIdentifier oid_arg
      then Inl (TypeError ''oid argument must be an ObjectIdentifier instance.'')
      else if \<not> is_bool critical_arg
      then Inl (TypeError ''critical must be a boolean value'')
      else Inr \<lparr>oid = the_ObjectIdentifier oid_arg, critical = truthy critical_arg,
                 value' = value_arg\<rparr>)"

subsection \<open>\<^verbatim>\<open>KeyUsage\<close>\<close>

definition KeyUsage_init ::
    "pyval \<Rightarrow> pyval \<Rightarrow> pyval \<Rightarrow> pyval \<Rightarrow> pyval \<Rightarrow> pyval \<Rightarrow> pyval \<Rightarrow> pyval \<Rightarrow> pyval
      \<Rightarrow> error + pyval" where
  "KeyUsage_init digital_signature content_commitment key_encipherment data_encipherment
       key_agreement key_cert_sign crl_sign encipher_only decipher_only =
     (if \<not> truthy key_agreement \<and> (truthy encipher_only \<or> truthy decipher_only)
      then Inl (ValueError
        ''encipher_only and decipher_only can only be true when key_agreement is true'')
      else Inr (KeyUsage digital_signature content_commitment key_encipherment
                  data_encipherment key_agreement key_cert_sign crl_sign
                  encipher_only decipher_only))"

text \<open>The properties \<^verbatim>\<open>encipher_only\<close> and \<^verbatim>\<open>decipher_only\<close>.\<close>

fun KeyUsage_encipher_only :: "pyval \<Rightarrow> error + pyval" where
  "KeyUsage_encipher_only (KeyUsage ds cc ke de ka kcs cs eo dc) =
     (if \<not> truthy ka
      then Inl (ValueError ''encipher_only is undefined unless key_agreement is true'')
      else Inr eo)"
| "KeyUsage_encipher_only _ = Inl (AttributeError ''encipher_only'')"

fun KeyUsage_decipher_only :: "pyval \<Rightarrow> error + pyval" where
  "KeyUsage_decipher_only (KeyUsage ds cc ke de ka kcs cs eo dc) =
     (if \<not> truthy ka
      then Inl (ValueError ''decipher_only is undefined unless key_agreement is true'')
      else Inr dc)"
| "KeyUsage_decipher_only _ = Inl (AttributeError ''decipher_only'')"

subsection \<open>\<^verbatim>\<open>NameConstraints\<close>\<close>

definition validate_ip_name :: "pyval \<Rightarrow> error + unit" where
  "validate_ip_name tree =
     (case py_any (\<lambda>name. is_IPAddress name \<and> \<not> value_is_network name) tree of
        Inl e \<Rightarrow> Inl e
      | Inr True \<Rightarrow>
          Inl (TypeError
            ''IPAddress name constraints must be an IPv4Network or IPv6Network object'')
      | Inr False \<Rightarrow> Inr ())"

text \<open>The checks \<^verbatim>\<open>__init__\<close> makes on one of its two arguments when it is not \<^verbatim>\<open>None\<close>.\<close>

definition check_subtrees :: "string \<Rightarrow> pyval \<Rightarrow> error + unit" where
  "check_subtrees message subtrees =
     (if subtrees \<noteq> PyNone then
        (case py_all is_GeneralName subtrees of
           Inl e \<Rightarrow> Inl e
         | Inr False \<Rightarrow> Inl (TypeError message)
         | Inr True \<Rightarrow> validate_ip_name subtrees)
      else Inr ())"

definition NameConstraints_init :: "pyval \<Rightarrow> pyval \<Rightarrow> error + pyval" where
  "NameConstraints_init permitted_subtrees excluded_subtrees =
     (case check_subtrees ''permitted_subtrees must be a list of GeneralName objects or None''
             permitted_subtrees of
        Inl e \<Rightarrow> Inl e
      | Inr u \<Rightarrow>
          (case check_subtrees ''excluded_subtrees must be a list of GeneralName objects or None''
                  excluded_subtrees of
             Inl e \<Rightarrow> Inl e
           | Inr u' \<Rightarrow>
               if permitted_subtrees = PyNone \<and> excluded_subtrees = PyNone
               then Inl (ValueError
                 ''At least one of permitted_subtrees and excluded_subtrees must not be None'')
               else Inr (NameConstraints permitted_subtrees excluded_subtrees)))"

subsection \<open>\<^verbatim>\<open>DistributionPoint\<close>\<close>

text \<open>
  \<^verbatim>\<open>v and not all(isinstance(x, GeneralName) for x in v)\<close>: the iteration happens only
  for a true \<open>v\<close>, and raises when \<open>v\<close> is not iterable.
\<close>

definition and_not_all :: "pyval \<Rightarrow> (pyval \<Rightarrow> bool) \<Rightarrow> error + bool" where
  "and_not_all v p =
     (if truthy v then (case py_all p v of Inl e \<Rightarrow> Inl e | Inr b \<Rightarrow> Inr (\<not> b))
      else Inr False)"

text \<open>\<^verbatim>\<open>flag in reasons\<close>, evaluated only for a frozenset.\<close>

fun contains :: "pyval \<Rightarrow> ReasonFlags \<Rightarrow> bool" where
  "contains (PyFrozenset xs) flag = (PyReasonFlags flag \<in> set xs)"
| "contains _ flag = False"

definition DistributionPoint_init ::
    "pyval \<Rightarrow> pyval \<Rightarrow> pyval \<Rightarrow> pyval \<Rightarrow> error + pyval" where
  "DistributionPoint_init full_name relative_name reasons crl_issuer =
     (if truthy full_name \<and> truthy relative_name
      then Inl (ValueError
        ''You cannot provide both full_name and relative_name, at least one must be None.'')
      else (case and_not_all full_name is_GeneralName of
        Inl e \<Rightarrow> Inl e
      | Inr True \<Rightarrow> Inl (TypeError ''full_name must be a list of GeneralName objects'')
      | Inr False \<Rightarrow>
      if truthy relative_name \<and> \<not> is_Name relative_name
      then Inl (TypeError ''relative_name must be a Name'')
      else (case and_not_all crl_issuer is_GeneralName of
        Inl e \<Rightarrow> Inl e
      | Inr True \<Rightarrow> Inl (TypeError ''crl_issuer must be None or a list of general names'')
      | Inr False \<Rightarrow>
      (case (if truthy reasons
             then (if \<not> is_frozenset reasons then Inr True
                   else (case py_all is_ReasonFlags reasons of
                           Inl e \<Rightarrow> Inl e
                         | Inr b \<Rightarrow> Inr (\<not> b)))
             else Inr False) of
        Inl e \<Rightarrow> Inl e
      | Inr True \<Rightarrow> Inl (TypeError ''reasons must be None or frozenset of ReasonFlags'')
      | Inr False \<Rightarrow>
      if truthy reasons \<and> (contains reasons unspecified \<or> contains reasons remove_from_crl)
      then Inl (ValueError
        ''unspecified and remove_from_crl are not valid reasons in a DistributionPoint'')
      else if truthy reasons \<and> \<not> truthy crl_issuer
              \<and> \<not> (truthy full_name \<or> truthy relative_name)
      then Inl (ValueError
        ''You must supply crl_issuer, full_name, or relative_name when reasons is not None'')
      else Inr (DistributionPoint full_name relative_name reasons crl_issuer)))))"


section \<open>The builders\<close>

subsection \<open>Objects and the store\<close>

text \<open>
  A builder is an object with identity: a method reads the attributes of \<^verbatim>\<open>self\<close> and
  returns a reference to a new object made by the constructor. The attribute
  \<^verbatim>\<open>_extensions\<close> holds a reference to a list object, which several builders may
  share. The store keeps the objects by address; the constructors allocate at its end.
\<close>

type_synonym addr = nat

record CertificateBuilder =
  cb_version :: Version
  cb_issuer_name :: pyval
  cb_subject_name :: pyval
  cb_public_key :: pyval
  cb_serial_number :: pyval
  cb_not_valid_before :: pyval
  cb_not_valid_after :: pyval
  cb_extensions :: addr

record CertificateSigningRequestBuilder =
  csr_subject_name :: pyval
  csr_extensions :: addr

datatype obj =
    ListObj "Extension list"
  | CertificateBuilderObj CertificateBuilder
  | CertificateSigningRequestBuilderObj CertificateSigningRequestBuilder

type_synonym heap = "obj list"

definition alloc :: "obj \<Rightarrow> heap \<Rightarrow> addr \<times> heap" where
  "alloc x h = (length h, h @ [x])"

definition lookup :: "heap \<Rightarrow> addr \<Rightarrow> obj option" where
  "lookup h a = (if a < length h then Some (h ! a) else None)"

definition get_CertificateBuilder :: "heap \<Rightarrow> addr \<Rightarrow> CertificateBuilder option" where
  "get_CertificateBuilder h a =
     (case lookup h a of Some (CertificateBuilderObj b) \<Rightarrow> Some b | _ \<Rightarrow> None)"

definition get_CertificateSigningRequestBuilder ::
    "heap \<Rightarrow> addr \<Rightarrow> CertificateSigningRequestBuilder option" where
  "get_CertificateSigningRequestBuilder h a =
     (case lookup h a of Some (CertificateSigningRequestBuilderObj b) \<Rightarrow> Some b | _ \<Rightarrow> None)"

definition get_list :: "heap \<Rightarrow> addr \<Rightarrow> Extension list option" where
  "get_list h a = (case lookup h a of Some (ListObj xs) \<Rightarrow> Some xs | _ \<Rightarrow> None)"

text \<open>
  The default \<^verbatim>\<open>extensions=[]\<close> of each constructor is one list object, made when the
  class is defined: the store starts with the two of them.
\<close>

definition initial_heap :: heap where
  "initial_heap = [ListObj [], ListObj []]"

definition CertificateSigningRequestBuilder_default_extensions :: addr where
  "CertificateSigningRequestBuilder_default_extensions = 0"

definition CertificateBuilder_default_extensions :: addr where
  "CertificateBuilder_default_extensions = 1"

text \<open>The loop of \<^verbatim>\<open>add_extension\<close> over the extensions already set.\<close>

fun check_not_set :: "Extension list \<Rightarrow> Extension \<Rightarrow> error + unit" where
  "check_not_set [] extension = Inr ()"
| "check_not_set (e # es) extension =
     (if oid e = oid extension then Inl (ValueError ''This extension has already been set.'')
      else check_not_set es extension)"

subsection \<open>\<^verbatim>\<open>CertificateSigningRequestBuilder\<close>\<close>

definition CertificateSigningRequestBuilder_init ::
    "pyval \<Rightarrow> addr \<Rightarrow> heap \<Rightarrow> addr \<times> heap" where
  "CertificateSigningRequestBuilder_init subject_name extensions h =
     alloc (CertificateSigningRequestBuilderObj
              \<lparr>csr_subject_name = subject_name, csr_extensions = extensions\<rparr>) h"

definition CertificateSigningRequestBuilder_subject_name ::
    "addr \<Rightarrow> pyval \<Rightarrow> heap \<Rightarrow> (error + addr) \<times> heap" where
  "CertificateSigningRequestBuilder_subject_name self name h =
     (case get_CertificateSigningRequestBuilder h self of
        None \<Rightarrow> (Inl (AttributeError ''_subject_name''), h)
      | Some b \<Rightarrow>
          if \<not> is_Name name then (Inl (TypeError ''Expecting x509.Name object.''), h)
          else if csr_subject_name b \<noteq> PyNone
          then (Inl (ValueError ''The subject name may only be set once.''), h)
          else (case CertificateSigningRequestBuilder_init name (csr_extensions b) h of
                  (a, h') \<Rightarrow> (Inr a, h')))"

definition CertificateSigningRequestBuilder_add_extension ::
    "addr \<Rightarrow> pyval \<Rightarrow> pyval \<Rightarrow> heap \<Rightarrow> (error + addr) \<times> heap" where
  "CertificateSigningRequestBuilder_add_extension self extension critical_arg h =
     (case get_CertificateSigningRequestBuilder h self of
        None \<Rightarrow> (Inl (AttributeError ''_extensions''), h)
      | Some b \<Rightarrow>
          if \<not> is_ExtensionType extension
          then (Inl (TypeError ''extension must be an ExtensionType''), h)
          else (case Extension_init (oid_attribute extension) critical_arg extension of
             Inl e \<Rightarrow> (Inl e, h)
           | Inr ext \<Rightarrow>
               (case get_list h (csr_extensions b) of
                  None \<Rightarrow> (Inl (TypeError ''object is not iterable''), h)
                | Some extensions \<Rightarrow>
                    (case check_not_set extensions ext of
                       Inl e \<Rightarrow> (Inl e, h)
                     | Inr u \<Rightarrow>
                         (case alloc (ListObj (extensions @ [ext])) h of
                            (l, h1) \<Rightarrow>
                              (case CertificateSigningRequestBuilder_init
                                      (csr_subject_name b) l h1 of
                                 (a, h2) \<Rightarrow> (Inr a, h2)))))))"

text \<open>
  The backend is a collaborator: \<^verbatim>\<open>sign\<close> hands it the builder, the key and the
  algorithm, and returns what it returns. The model lists the calls made to it.
\<close>

datatype backend_call =
    create_x509_csr addr pyval pyval
  | create_x509_certificate addr pyval pyval

type_synonym 'r backend = "backend_call \<Rightarrow> heap \<Rightarrow> error + 'r"

definition CertificateSigningRequestBuilder_sign ::
    "addr \<Rightarrow> pyval \<Rightarrow> pyval \<Rightarrow> 'r backend \<Rightarrow> heap \<Rightarrow> backend_call list
      \<Rightarrow> (error + 'r) \<times> backend_call list" where
  "CertificateSigningRequestBuilder_sign self private_key hash_algorithm backend h calls =
     (case get_CertificateSigningRequestBuilder h self of
        None \<Rightarrow> (Inl (AttributeError ''_subject_name''), calls)
      | Some b \<Rightarrow>
          if csr_subject_name b = PyNone
          then (Inl (ValueError ''A CertificateSigningRequest must have a subject''), calls)
          else (backend (create_x509_csr self private_key hash_algorithm) h,
                calls @ [create_x509_csr self private_key hash_algorithm]))"

subsection \<open>\<^verbatim>\<open>CertificateBuilder\<close>\<close>

definition CertificateBuilder_init ::
    "pyval \<Rightarrow> pyval \<Rightarrow> pyval \<Rightarrow> pyval \<Rightarrow> pyval \<Rightarrow> pyval \<Rightarrow> addr \<Rightarrow> heap \<Rightarrow> addr \<times> heap" where
  "CertificateBuilder_init issuer_name subject_name public_key serial_number
       not_valid_before not_valid_after extensions h =
     alloc (CertificateBuilderObj
              \<lparr>cb_version = v3, cb_issuer_name = issuer_name, cb_subject_name = subject_name,
               cb_public_key = public_key, cb_serial_number = serial_number,
               cb_not_valid_before = not_valid_before, cb_not_valid_after = not_valid_after,
               cb_extensions = extensions\<rparr>) h"

definition CertificateBuilder_issuer_name ::
    "addr \<Rightarrow> pyval \<Rightarrow> heap \<Rightarrow> (error + addr) \<times> heap" where
  "CertificateBuilder_issuer_name self name h =
     (case get_CertificateBuilder h self of
        None \<Rightarrow> (Inl (AttributeError ''_issuer_name''), h)
      | Some b \<Rightarrow>
          if \<not> is_Name name then (Inl (TypeError ''Expecting x509.Name object.''), h)
          else if cb_issuer_name b \<noteq> PyNone
          then (Inl (ValueError ''The issuer name may only be set once.''), h)
          else (case CertificateBuilder_init name (cb_subject_name b) (cb_public_key b)
                       (cb_serial_number b) (cb_not_valid_before b) (cb_not_valid_after b)
                       (cb_extensions b) h of
                  (a, h') \<Rightarrow> (Inr a, h')))"

definition CertificateBuilder_subject_name ::
    "addr \<Rightarrow> pyval \<Rightarrow> heap \<Rightarrow> (error + addr) \<times> heap" where
  "CertificateBuilder_subject_name self name h =
     (case get_CertificateBuilder h self of
        None \<Rightarrow> (Inl (AttributeError ''_subject_name''), h)
      | Some b \<Rightarrow>
          if \<not> is_Name name then (Inl (TypeError ''Expecting x509.Name object.''), h)
          else if cb_subject_name b \<noteq> PyNone
          then (Inl (ValueError ''The subject name may only be set once.''), h)
          else (case CertificateBuilder_init (cb_issuer_name b) name (cb_public_key b)
                       (cb_serial_number b) (cb_not_valid_before b) (cb_not_valid_after b)
                       (cb_extensions b) h of
                  (a, h') \<Rightarrow> (Inr a, h')))"

definition CertificateBuilder_public_key ::
    "addr \<Rightarrow> pyval \<Rightarrow> heap \<Rightarrow> (error + addr) \<times> heap" where
  "CertificateBuilder_public_key self key h =
     (case get_CertificateBuilder h self of
        None \<Rightarrow> (Inl (AttributeError ''_public_key''), h)
      | Some b \<Rightarrow>
          if \<not> is_supported_public_key key
          then (Inl (TypeError
            ''Expecting one of DSAPublicKey, RSAPublicKey, or EllipticCurvePublicKey.''), h)
          else if cb_public_key b \<noteq> PyNone
          then (Inl (ValueError ''The public key may only be set once.''), h)
          else (case CertificateBuilder_init (cb_issuer_name b) (cb_subject_name b) key
                       (cb_serial_number b) (cb_not_valid_before b) (cb_not_valid_after b)
                       (cb_extensions b) h of
                  (a, h') \<Rightarrow> (Inr a, h')))"

definition CertificateBuilder_serial_number ::
    "addr \<Rightarrow> pyval \<Rightarrow> heap \<Rightarrow> (error + addr) \<times> heap" where
  "CertificateBuilder_serial_number self number h =
     (case get_CertificateBuilder h self of
        None \<Rightarrow> (Inl (AttributeError ''_serial_number''), h)
      | Some b \<Rightarrow>
          if \<not> is_integer number
          then (Inl (TypeError ''Serial number must be of integral type.''), h)
          else if cb_serial_number b \<noteq> PyNone
          then (Inl (ValueError ''The serial number may only be set once.''), h)
          else if int_value number < 0
          then (Inl (ValueError ''The serial number should be non-negative.''), h)
          else if bit_length (int_value number) > 160
          then (Inl (ValueError ''The serial number should not be more than 160 bits.''), h)
          else (case CertificateBuilder_init (cb_issuer_name b) (cb_subject_name b)
                       (cb_public_key b) number (cb_not_valid_before b) (cb_not_valid_after b)
                       (cb_extensions b) h of
                  (a, h') \<Rightarrow> (Inr a, h')))"

text \<open>\<^verbatim>\<open>time <= _UNIX_EPOCH\<close> for an object that passed the \<^verbatim>\<open>isinstance\<close> check.\<close>

fun time_le_UNIX_EPOCH :: "pyval \<Rightarrow> error + bool" where
  "time_le_UNIX_EPOCH (PyDatetime t) = le_UNIX_EPOCH t"
| "time_le_UNIX_EPOCH _ = Inl (TypeError ''unorderable types'')"

definition CertificateBuilder_not_valid_before ::
    "addr \<Rightarrow> pyval \<Rightarrow> heap \<Rightarrow> (error + addr) \<times> heap" where
  "CertificateBuilder_not_valid_before self time h =
     (case get_CertificateBuilder h self of
        None \<Rightarrow> (Inl (AttributeError ''_not_valid_before''), h)
      | Some b \<Rightarrow>
          if \<not> is_datetime time then (Inl (TypeError ''Expecting datetime object.''), h)
          else if cb_not_valid_before b \<noteq> PyNone
          then (Inl (ValueError ''The not valid before may only be set once.''), h)
          else (case time_le_UNIX_EPOCH time of
             Inl e \<Rightarrow> (Inl e, h)
           | Inr True \<Rightarrow>
               (Inl (ValueError
                 ''The not valid before date must be after the unix epoch (1970 January 1).''), h)
           | Inr False \<Rightarrow>
               (case CertificateBuilder_init (cb_issuer_name b) (cb_subject_name b)
                       (cb_public_key b) (cb_serial_number b) time (cb_not_valid_after b)
                       (cb_extensions b) h of
                  (a, h') \<Rightarrow> (Inr a, h'))))"

definition CertificateBuilder_not_valid_after ::
    "addr \<Rightarrow> pyval \<Rightarrow> heap \<Rightarrow> (error + addr) \<times> heap" where
  "CertificateBuilder_not_valid_after self time h =
     (case get_CertificateBuilder h self of
        None \<Rightarrow> (Inl (AttributeError ''_not_valid_after''), h)
      | Some b \<Rightarrow>
          if \<not> is_datetime time then (Inl (TypeError ''Expecting datetime object.''), h)
          else if cb_not_valid_after b \<noteq> PyNone
          then (Inl (ValueError ''The not valid after may only be set once.''), h)
          else (case time_le_UNIX_EPOCH time of
             Inl e \<Rightarrow> (Inl e, h)
           | Inr True \<Rightarrow>
               (Inl (ValueError
                 ''The not valid after date must be after the unix epoch (1970 January 1).''), h)
           | Inr False \<Rightarrow>
               (case CertificateBuilder_init (cb_issuer_name b) (cb_subject_name b)
                       (cb_public_key b) (cb_serial_number b) (cb_not_valid_before b) time
                       (cb_extensions b) h of
                  (a, h') \<Rightarrow> (Inr a, h'))))"

definition CertificateBuilder_add_extension ::
    "addr \<Rightarrow> pyval \<Rightarrow> pyval \<Rightarrow> heap \<Rightarrow> (error + addr) \<times> heap" where
  "CertificateBuilder_add_extension self extension critical_arg h =
     (case get_CertificateBuilder h self of
        None \<Rightarrow> (Inl (AttributeError ''_extensions''), h)
      | Some b \<Rightarrow>
          if \<not> is_ExtensionType extension
          then (Inl (TypeError ''extension must be an ExtensionType''), h)
          else (case Extension_init (oid_attribute extension) critical_arg extension of
             Inl e \<Rightarrow> (Inl e, h)
           | Inr ext \<Rightarrow>
               (case get_list h (cb_extensions b) of
                  None \<Rightarrow> (Inl (TypeError ''object is not iterable''), h)
                | Some extensions \<Rightarrow>
                    (case check_not_set extensions ext of
                       Inl e \<Rightarrow> (Inl e, h)
                     | Inr u \<Rightarrow>
                         (case alloc (ListObj (extensions @ [ext])) h of
                            (l, h1) \<Rightarrow>
                              (case CertificateBuilder_init (cb_issuer_name b)
                                      (cb_subject_name b) (cb_public_key b)
                                      (cb_serial_number b) (cb_not_valid_before b)
                                      (cb_not_valid_after b) l h1 of
                                 (a, h2) \<Rightarrow> (Inr a, h2)))))))"

definition CertificateBuilder_sign ::
    "addr \<Rightarrow> pyval \<Rightarrow> pyval \<Rightarrow> 'r backend \<Rightarrow> heap \<Rightarrow> backend_call list
      \<Rightarrow> (error + 'r) \<times> backend_call list" where
  "CertificateBuilder_sign self private_key hash_algorithm backend h calls =
     (case get_CertificateBuilder h self of
        None \<Rightarrow> (Inl (AttributeError ''_subject_name''), calls)
      | Some b \<Rightarrow>
          if cb_subject_name b = PyNone
          then (Inl (ValueError ''A certificate must have a subject name''), calls)
          else if cb_issuer_name b = PyNone
          then (Inl (ValueError ''A certificate must have an issuer name''), calls)
          else if cb_serial_number b = PyNone
          then (Inl (ValueError ''A certificate must have a serial number''), calls)
          else if cb_not_valid_before b = PyNone
          then (Inl (ValueError ''A certificate must have a not valid before time''), calls)
          else if cb_not_valid_after b = PyNone
          then (Inl (ValueError ''A certificate must have a not valid after time''), calls)
          else if cb_public_key b = PyNone
          then (Inl (ValueError ''A certificate must have a public key''), calls)
          else (backend (create_x509_certificate self private_key hash_algorithm) h,
                calls @ [create_x509_certificate self private_key hash_algorithm]))"

subsection \<open>Sequences of setter calls\<close>

text \<open>A call of one of the setters of the two builders, with its arguments.\<close>

datatype setter =
    Issuer_name pyval
  | Subject_name pyval
  | Public_key pyval
  | Serial_number pyval
  | Not_valid_before pyval
  | Not_valid_after pyval
  | Add_extension pyval pyval
  | Csr_subject_name pyval
  | Csr_add_extension pyval pyval

fun call_setter :: "setter \<Rightarrow> addr \<Rightarrow> heap \<Rightarrow> (error + addr) \<times> heap" where
  "call_setter (Issuer_name v) self h = CertificateBuilder_issuer_name self v h"
| "call_setter (Subject_name v) self h = CertificateBuilder_subject_name self v h"
| "call_setter (Public_key v) self h = CertificateBuilder_public_key self v h"
| "call_setter (Serial_number v) self h = CertificateBuilder_serial_number self v h"
| "call_setter (Not_valid_before v) self h = CertificateBuilder_not_valid_before self v h"
| "call_setter (Not_valid_after v) self h = CertificateBuilder_not_valid_after self v h"
| "call_setter (Add_extension v c) self h = CertificateBuilder_add_extension self v c h"
| "call_setter (Csr_subject_name v) self h =
     CertificateSigningRequestBuilder_subject_name self v h"
| "call_setter (Csr_add_extension v c) self h =
     CertificateSigningRequestBuilder_add_extension self v c h"

text \<open>
  A program that calls setters one after the other, each on the builder at an address
  of its choice (a builder it started with or one an earlier call returned), and keeps
  the store the calls leave.
\<close>

fun run_setters :: "(addr \<times> setter) list \<Rightarrow> heap \<Rightarrow> heap" where
  "run_setters [] h = h"
| "run_setters ((self, s) # calls) h = run_setters calls (snd (call_setter s self h))"

text \<open>
  What can be read from a builder: its attributes, with the contents of the list
  \<^verbatim>\<open>_extensions\<close> refers to.
\<close>

datatype builder_view =
    CertificateBuilderView CertificateBuilder "Extension list"
  | CertificateSigningRequestBuilderView CertificateSigningRequestBuilder "Extension list"

definition view :: "heap \<Rightarrow> addr \<Rightarrow> builder_view option" where
  "view h a =
     (case lookup h a of
        Some (CertificateBuilderObj b) \<Rightarrow>
          map_option (CertificateBuilderView b) (get_list h (cb_extensions b))
      | Some (CertificateSigningRequestBuilderObj b) \<Rightarrow>
          map_option (CertificateSigningRequestBuilderView b) (get_list h (csr_extensions b))
      | _ \<Rightarrow> None)"

text \<open>
  \<^verbatim>\<open>CertificateBuilder()\<close> and \<^verbatim>\<open>CertificateSigningRequestBuilder()\<close> with the default
  arguments, called on the initial store: the address of the new builder and the store.
\<close>

definition new_CertificateBuilder :: "addr \<times> heap" where
  "new_CertificateBuilder =
     CertificateBuilder_init PyNone PyNone PyNone PyNone PyNone PyNone
       CertificateBuilder_default_extensions initial_heap"

definition new_CertificateSigningRequestBuilder :: "addr \<times> heap" where
  "new_CertificateSigningRequestBuilder =
     CertificateSigningRequestBuilder_init PyNone
       CertificateSigningRequestBuilder_default_extensions initial_heap"

section \<open>Notions used in the statements\<close>


text \<open>
  A \<^verbatim>\<open>reasons\<close> argument as the error messages of \<^verbatim>\<open>DistributionPoint\<close> want it: a
  frozenset of \<^verbatim>\<open>ReasonFlags\<close> without \<^verbatim>\<open>unspecified\<close> and \<^verbatim>\<open>remove_from_crl\<close>.
\<close>

fun valid_reasons :: "pyval \<Rightarrow> bool" where
  "valid_reasons (PyFrozenset xs) =
     (list_all is_ReasonFlags xs \<and> PyReasonFlags unspecified \<notin> set xs
        \<and> PyReasonFlags remove_from_crl \<notin> set xs)"
| "valid_reasons _ = False"

text \<open>
  A subtree argument \<^verbatim>\<open>NameConstraints\<close> accepts: \<^verbatim>\<open>None\<close>, or an iterable of general
  names in which every \<^verbatim>\<open>IPAddress\<close> wraps a network.
\<close>

definition valid_subtrees :: "pyval \<Rightarrow> bool" where
  "valid_subtrees t =
     (t = PyNone \<or>
      (case py_iter t of
         Inl e \<Rightarrow> False
       | Inr names \<Rightarrow>
           list_all is_GeneralName names
           \<and> \<not> list_ex (\<lambda>name. is_IPAddress name \<and> \<not> value_is_network name) names))"

text \<open>A certificate builder with every mandatory attribute set.\<close>

definition complete :: "CertificateBuilder \<Rightarrow> bool" where
  "complete b =
     (cb_subject_name b \<noteq> PyNone \<and> cb_issuer_name b \<noteq> PyNone
      \<and> cb_serial_number b \<noteq> PyNone \<and> cb_not_valid_before b \<noteq> PyNone
      \<and> cb_not_valid_after b \<noteq> PyNone \<and> cb_public_key b \<noteq> PyNone)"

text \<open>
  A datetime strictly after 1970-01-01 00:00:00 on the wall clock: a later year, or the
  year 1970 and not the first instant of it.
\<close>

definition after_epoch :: "datetime \<Rightarrow> bool" where
  "after_epoch t = (year t > 1970 \<or> (year t = 1970 \<and> wall_clock t \<noteq> [1970, 1, 1, 0, 0, 0, 0]))"

text \<open>\<^verbatim>\<open>datetime.datetime(y, m, d)\<close>: midnight of a day, naive.\<close>

definition datetime_ymd :: "nat \<Rightarrow> nat \<Rightarrow> nat \<Rightarrow> datetime" where
  "datetime_ymd y m d =
     \<lparr>year = y, month = m, day = d, hour = 0, minute = 0, second = 0, microsecond = 0,
      utcoffset = None\<rparr>"

text \<open>The error of \<^verbatim>\<open>add_extension\<close> for an extension whose OID the builder already has.\<close>

definition already_set :: error where
  "already_set = ValueError ''This extension has already been set.''"

text \<open>
  The outcome of a call that leaves the store it found as it was: a failure changes
  nothing, and a success only adds objects at the end and returns the address of a new
  builder among them.
\<close>

definition pure_outcome :: "heap \<Rightarrow> (error + addr) \<times> heap \<Rightarrow> bool" where
  "pure_outcome h res =
     (case res of
        (Inl e, h') \<Rightarrow> h' = h
      | (Inr a, h') \<Rightarrow>
          (\<exists>new. h' = h @ new) \<and> length h \<le> a \<and> a < length h'
          \<and> (get_CertificateBuilder h' a \<noteq> None
               \<or> get_CertificateSigningRequestBuilder h' a \<noteq> None))"


section \<open>Properties\<close>

subsection \<open>Shared facts\<close>

lemma bit_length_nat_0: "bit_length_nat 0 = 0"
  by (subst bit_length_nat.simps) simp

lemma bit_length_nat_pos: "n \<noteq> 0 \<Longrightarrow> bit_length_nat n = Suc (bit_length_nat (n div 2))"
  by (subst bit_length_nat.simps) simp

lemma bit_length_nat_le: "bit_length_nat n \<le> k \<longleftrightarrow> n < 2 ^ k"
proof (induction k arbitrary: n)
  case 0
  show ?case by (cases "n = 0") (simp_all add: bit_length_nat_0 bit_length_nat_pos)
next
  case (Suc k)
  show ?case
  proof (cases "n = 0")
    case True
    then show ?thesis by (simp add: bit_length_nat_0)
  next
    case False
    have "n < 2 ^ Suc k \<longleftrightarrow> n div 2 < 2 ^ k" by auto
    with False show ?thesis by (simp add: bit_length_nat_pos Suc.IH)
  qed
qed

lemma bit_length_gt: "160 < bit_length n \<longleftrightarrow> 2 ^ 160 \<le> \<bar>n\<bar>"
proof -
  have "bit_length n \<le> 160 \<longleftrightarrow> nat \<bar>n\<bar> < 2 ^ 160"
    unfolding bit_length_def by (rule bit_length_nat_le)
  also have "\<dots> \<longleftrightarrow> \<bar>n\<bar> < 2 ^ 160" by auto
  finally show ?thesis by auto
qed

lemma sign_complete:
  "get_CertificateBuilder h self = Some b \<Longrightarrow> complete b \<Longrightarrow>
   CertificateBuilder_sign self pk alg backend h calls =
     (backend (create_x509_certificate self pk alg) h,
      calls @ [create_x509_certificate self pk alg])"
  by (simp add: CertificateBuilder_sign_def complete_def)

lemma sign_incomplete:
  "get_CertificateBuilder h self = Some b \<Longrightarrow> \<not> complete b \<Longrightarrow>
   \<exists>msg. CertificateBuilder_sign self pk alg backend h calls = (Inl (ValueError msg), calls)"
  by (auto simp: CertificateBuilder_sign_def complete_def)

lemma new_CertificateBuilder_eq:
  "new_CertificateBuilder =
     (2, [ListObj [], ListObj [],
          CertificateBuilderObj
            \<lparr>cb_version = v3, cb_issuer_name = PyNone, cb_subject_name = PyNone,
             cb_public_key = PyNone, cb_serial_number = PyNone,
             cb_not_valid_before = PyNone, cb_not_valid_after = PyNone,
             cb_extensions = 1\<rparr>])"
  by (simp add: new_CertificateBuilder_def CertificateBuilder_init_def alloc_def
        initial_heap_def CertificateBuilder_default_extensions_def)

lemma new_CertificateSigningRequestBuilder_eq:
  "new_CertificateSigningRequestBuilder =
     (2, [ListObj [], ListObj [],
          CertificateSigningRequestBuilderObj
            \<lparr>csr_subject_name = PyNone, csr_extensions = 0\<rparr>])"
  by (simp add: new_CertificateSigningRequestBuilder_def
        CertificateSigningRequestBuilder_init_def alloc_def initial_heap_def
        CertificateSigningRequestBuilder_default_extensions_def)

lemma get_new_CertificateBuilder:
  "get_CertificateBuilder (snd new_CertificateBuilder) (fst new_CertificateBuilder) =
     Some \<lparr>cb_version = v3, cb_issuer_name = PyNone, cb_subject_name = PyNone,
           cb_public_key = PyNone, cb_serial_number = PyNone,
           cb_not_valid_before = PyNone, cb_not_valid_after = PyNone,
           cb_extensions = 1\<rparr>"
  by (simp add: new_CertificateBuilder_eq get_CertificateBuilder_def lookup_def)

lemma get_new_CertificateSigningRequestBuilder:
  "get_CertificateSigningRequestBuilder (snd new_CertificateSigningRequestBuilder)
       (fst new_CertificateSigningRequestBuilder) =
     Some \<lparr>csr_subject_name = PyNone, csr_extensions = 0\<rparr>"
  by (simp add: new_CertificateSigningRequestBuilder_eq
        get_CertificateSigningRequestBuilder_def lookup_def)

subsection \<open>Key-identifier derivation\<close>



























subsection \<open>Signing an incomplete builder\<close>

text \<open>
  Claim C2. For a certificate builder, \<^verbatim>\<open>sign\<close> raises \<^verbatim>\<open>ValueError\<close> and makes no call
  to the backend if and only if the subject name, the issuer name, the serial number,
  \<^verbatim>\<open>not_valid_before\<close>, \<^verbatim>\<open>not_valid_after\<close> or the public key is \<^verbatim>\<open>None\<close>; otherwise it
  calls the backend once and returns what the backend returns. For a request builder it
  raises without a call if and only if the subject name is \<^verbatim>\<open>None\<close>.
\<close>

theorem sign_incomplete_iff:
  "(get_CertificateBuilder h self = Some b \<longrightarrow>
      ((\<exists>msg. CertificateBuilder_sign self pk alg backend h calls
                = (Inl (ValueError msg), calls))
        \<longleftrightarrow> (cb_subject_name b = PyNone \<or> cb_issuer_name b = PyNone
             \<or> cb_serial_number b = PyNone \<or> cb_not_valid_before b = PyNone
             \<or> cb_not_valid_after b = PyNone \<or> cb_public_key b = PyNone))
      \<and> (complete b \<longrightarrow>
           CertificateBuilder_sign self pk alg backend h calls =
             (backend (create_x509_certificate self pk alg) h,
              calls @ [create_x509_certificate self pk alg])))
   \<and> (get_CertificateSigningRequestBuilder h self = Some r \<longrightarrow>
      ((\<exists>msg. CertificateSigningRequestBuilder_sign self pk alg backend h calls
                = (Inl (ValueError msg), calls))
        \<longleftrightarrow> csr_subject_name r = PyNone)
      \<and> (csr_subject_name r \<noteq> PyNone \<longrightarrow>
           CertificateSigningRequestBuilder_sign self pk alg backend h calls =
             (backend (create_x509_csr self pk alg) h,
              calls @ [create_x509_csr self pk alg])))"
proof (intro conjI impI)
  assume g: "get_CertificateBuilder h self = Some b"
  show "(\<exists>msg. CertificateBuilder_sign self pk alg backend h calls
                = (Inl (ValueError msg), calls))
        \<longleftrightarrow> (cb_subject_name b = PyNone \<or> cb_issuer_name b = PyNone
             \<or> cb_serial_number b = PyNone \<or> cb_not_valid_before b = PyNone
             \<or> cb_not_valid_after b = PyNone \<or> cb_public_key b = PyNone)"
  proof (cases "complete b")
    case True
    with sign_complete [OF g True, of pk alg backend calls] show ?thesis
      by (simp add: complete_def)
  next
    case False
    with sign_incomplete [OF g False] show ?thesis by (auto simp: complete_def)
  qed
next
  assume "get_CertificateBuilder h self = Some b" "complete b"
  then show "CertificateBuilder_sign self pk alg backend h calls =
             (backend (create_x509_certificate self pk alg) h,
              calls @ [create_x509_certificate self pk alg])"
    by (rule sign_complete)
next
  assume "get_CertificateSigningRequestBuilder h self = Some r"
  then show "(\<exists>msg. CertificateSigningRequestBuilder_sign self pk alg backend h calls
                = (Inl (ValueError msg), calls))
        \<longleftrightarrow> csr_subject_name r = PyNone"
    by (auto simp: CertificateSigningRequestBuilder_sign_def)
next
  assume "get_CertificateSigningRequestBuilder h self = Some r" "csr_subject_name r \<noteq> PyNone"
  then show "CertificateSigningRequestBuilder_sign self pk alg backend h calls =
             (backend (create_x509_csr self pk alg) h,
              calls @ [create_x509_csr self pk alg])"
    by (simp add: CertificateSigningRequestBuilder_sign_def)
qed

text \<open>
  The builders as their constructors make them are refused without a call; a builder
  with every attribute set reaches the backend.
\<close>

theorem sign_incomplete_iff_witness:
  "get_CertificateBuilder (snd new_CertificateBuilder) (fst new_CertificateBuilder) =
     Some \<lparr>cb_version = v3, cb_issuer_name = PyNone, cb_subject_name = PyNone,
           cb_public_key = PyNone, cb_serial_number = PyNone,
           cb_not_valid_before = PyNone, cb_not_valid_after = PyNone,
           cb_extensions = 1\<rparr>
   \<and> (\<exists>msg. CertificateBuilder_sign (fst new_CertificateBuilder) PyNone PyNone
               (\<lambda>c h. Inr ()) (snd new_CertificateBuilder) []
             = (Inl (ValueError msg), []))
   \<and> get_CertificateSigningRequestBuilder (snd new_CertificateSigningRequestBuilder)
       (fst new_CertificateSigningRequestBuilder) =
     Some \<lparr>csr_subject_name = PyNone, csr_extensions = 0\<rparr>
   \<and> (\<exists>msg. CertificateSigningRequestBuilder_sign (fst new_CertificateSigningRequestBuilder)
               PyNone PyNone (\<lambda>c h. Inr ()) (snd new_CertificateSigningRequestBuilder) []
             = (Inl (ValueError msg), []))
   \<and> CertificateBuilder_sign 1 PyNone PyNone (\<lambda>c h. Inr ())
         [ListObj [], CertificateBuilderObj
            \<lparr>cb_version = v3, cb_issuer_name = PyName (Name []),
             cb_subject_name = PyName (Name []),
             cb_public_key = PyPublicKey RSAPublicKey [], cb_serial_number = PyInt 1,
             cb_not_valid_before = PyInt 0, cb_not_valid_after = PyInt 0,
             cb_extensions = 0\<rparr>] []
       = (Inr (), [create_x509_certificate 1 PyNone PyNone])
   \<and> CertificateSigningRequestBuilder_sign 1 PyNone PyNone (\<lambda>c h. Inr ())
         [ListObj [], CertificateSigningRequestBuilderObj
            \<lparr>csr_subject_name = PyName (Name []), csr_extensions = 0\<rparr>] []
       = (Inr (), [create_x509_csr 1 PyNone PyNone])"
  using sign_incomplete_iff
          [of "[ListObj [], CertificateBuilderObj
            \<lparr>cb_version = v3, cb_issuer_name = PyName (Name []),
             cb_subject_name = PyName (Name []),
             cb_public_key = PyPublicKey RSAPublicKey [], cb_serial_number = PyInt 1,
             cb_not_valid_before = PyInt 0, cb_not_valid_after = PyInt 0,
             cb_extensions = 0\<rparr>]" 1
            "\<lparr>cb_version = v3, cb_issuer_name = PyName (Name []),
             cb_subject_name = PyName (Name []),
             cb_public_key = PyPublicKey RSAPublicKey [], cb_serial_number = PyInt 1,
             cb_not_valid_before = PyInt 0, cb_not_valid_after = PyInt 0,
             cb_extensions = 0\<rparr>" PyNone PyNone "\<lambda>c h. Inr ()" "[]"
            "\<lparr>csr_subject_name = PyName (Name []), csr_extensions = 0\<rparr>"]
        sign_incomplete_iff
          [of "[ListObj [], CertificateSigningRequestBuilderObj
            \<lparr>csr_subject_name = PyName (Name []), csr_extensions = 0\<rparr>]" 1
            "\<lparr>cb_version = v3, cb_issuer_name = PyName (Name []),
             cb_subject_name = PyName (Name []),
             cb_public_key = PyPublicKey RSAPublicKey [], cb_serial_number = PyInt 1,
             cb_not_valid_before = PyInt 0, cb_not_valid_after = PyInt 0,
             cb_extensions = 0\<rparr>" PyNone PyNone "\<lambda>c h. Inr ()" "[]"
            "\<lparr>csr_subject_name = PyName (Name []), csr_extensions = 0\<rparr>"]
        sign_incomplete_iff
          [of "snd new_CertificateBuilder" "fst new_CertificateBuilder"
              "\<lparr>cb_version = v3, cb_issuer_name = PyNone, cb_subject_name = PyNone,
                cb_public_key = PyNone, cb_serial_number = PyNone,
                cb_not_valid_before = PyNone, cb_not_valid_after = PyNone,
                cb_extensions = 1\<rparr>" PyNone PyNone "\<lambda>c h. Inr ()" "[]"
              "\<lparr>csr_subject_name = PyNone, csr_extensions = 0\<rparr>"]
        sign_incomplete_iff
          [of "snd new_CertificateSigningRequestBuilder"
              "fst new_CertificateSigningRequestBuilder"
              "\<lparr>cb_version = v3, cb_issuer_name = PyNone, cb_subject_name = PyNone,
                cb_public_key = PyNone, cb_serial_number = PyNone,
                cb_not_valid_before = PyNone, cb_not_valid_after = PyNone,
                cb_extensions = 1\<rparr>" PyNone PyNone "\<lambda>c h. Inr ()" "[]"
              "\<lparr>csr_subject_name = PyNone, csr_extensions = 0\<rparr>"]
        get_new_CertificateBuilder get_new_CertificateSigningRequestBuilder
  by (simp add: complete_def get_CertificateBuilder_def
        get_CertificateSigningRequestBuilder_def lookup_def)

subsection \<open>Duplicate extensions\<close>

lemma check_not_set_iff:
  "check_not_set exts ext =
     (if \<exists>e \<in> set exts. oid e = oid ext then Inl already_set else Inr ())"
  by (induction exts) (auto simp: already_set_def)

lemma ExtensionType_init:
  "ExtensionType_oid e = Some i \<Longrightarrow>
   is_ExtensionType e \<and>
   Extension_init (oid_attribute e) (PyBool c) e = Inr \<lparr>oid = i, critical = c, value' = e\<rparr>"
  by (simp add: is_ExtensionType_def oid_attribute_def Extension_init_def)

lemma cb_add_extension_result:
  assumes "get_CertificateBuilder h self = Some b"
    and "get_list h (cb_extensions b) = Some exts"
    and "ExtensionType_oid e = Some i"
  shows "CertificateBuilder_add_extension self e (PyBool c) h =
     (if \<exists>x \<in> set exts. oid x = i then (Inl already_set, h)
      else (Inr (Suc (length h)),
            h @ [ListObj (exts @ [\<lparr>oid = i, critical = c, value' = e\<rparr>]),
                 CertificateBuilderObj (b\<lparr>cb_version := v3, cb_extensions := length h\<rparr>)]))"
  using assms ExtensionType_init [OF assms(3), of c]
  by (cases b)
     (simp add: CertificateBuilder_add_extension_def check_not_set_iff
        CertificateBuilder_init_def alloc_def)

lemma csr_add_extension_result:
  assumes "get_CertificateSigningRequestBuilder h self = Some b"
    and "get_list h (csr_extensions b) = Some exts"
    and "ExtensionType_oid e = Some i"
  shows "CertificateSigningRequestBuilder_add_extension self e (PyBool c) h =
     (if \<exists>x \<in> set exts. oid x = i then (Inl already_set, h)
      else (Inr (Suc (length h)),
            h @ [ListObj (exts @ [\<lparr>oid = i, critical = c, value' = e\<rparr>]),
                 CertificateSigningRequestBuilderObj (b\<lparr>csr_extensions := length h\<rparr>)]))"
  using assms ExtensionType_init [OF assms(3), of c]
  by (cases b)
     (simp add: CertificateSigningRequestBuilder_add_extension_def check_not_set_iff
        CertificateSigningRequestBuilder_init_def alloc_def)

lemma get_after_add:
  "get_CertificateBuilder (h @ [ListObj l, CertificateBuilderObj b]) (Suc (length h)) = Some b"
  "get_CertificateSigningRequestBuilder
     (h @ [ListObj l, CertificateSigningRequestBuilderObj r]) (Suc (length h)) = Some r"
  "get_list (h @ [ListObj l, x]) (length h) = Some l"
  by (simp_all add: get_CertificateBuilder_def get_CertificateSigningRequestBuilder_def
        get_list_def lookup_def nth_append)

lemma cb_add_twice:
  assumes "get_CertificateBuilder h self = Some b"
    and "get_list h (cb_extensions b) = Some exts"
    and "ExtensionType_oid e1 = Some i" and "ExtensionType_oid e2 = Some i"
    and "CertificateBuilder_add_extension self e1 (PyBool c1) h = (Inr a, h1)"
  shows "CertificateBuilder_add_extension a e2 (PyBool c2) h1 = (Inl already_set, h1)"
proof -
  let ?x = "\<lparr>oid = i, critical = c1, value' = e1\<rparr>"
  let ?b = "b\<lparr>cb_version := v3, cb_extensions := length h\<rparr>"
  from assms(5) cb_add_extension_result [OF assms(1,2,3), of c1]
  have a: "a = Suc (length h)"
    and h1: "h1 = h @ [ListObj (exts @ [?x]), CertificateBuilderObj ?b]"
    by (auto split: if_splits)
  have g: "get_CertificateBuilder h1 a = Some ?b" unfolding a h1 by (rule get_after_add)
  have l: "get_list h1 (cb_extensions ?b) = Some (exts @ [?x])"
    unfolding h1 by (simp add: get_after_add)
  show ?thesis
    using cb_add_extension_result [OF g l assms(4), of c2] by simp
qed

lemma csr_add_twice:
  assumes "get_CertificateSigningRequestBuilder h self = Some b"
    and "get_list h (csr_extensions b) = Some exts"
    and "ExtensionType_oid e1 = Some i" and "ExtensionType_oid e2 = Some i"
    and "CertificateSigningRequestBuilder_add_extension self e1 (PyBool c1) h = (Inr a, h1)"
  shows "CertificateSigningRequestBuilder_add_extension a e2 (PyBool c2) h1
           = (Inl already_set, h1)"
proof -
  let ?x = "\<lparr>oid = i, critical = c1, value' = e1\<rparr>"
  let ?b = "b\<lparr>csr_extensions := length h\<rparr>"
  from assms(5) csr_add_extension_result [OF assms(1,2,3), of c1]
  have a: "a = Suc (length h)"
    and h1: "h1 = h @ [ListObj (exts @ [?x]), CertificateSigningRequestBuilderObj ?b]"
    by (auto split: if_splits)
  have g: "get_CertificateSigningRequestBuilder h1 a = Some ?b"
    unfolding a h1 by (rule get_after_add)
  have l: "get_list h1 (csr_extensions ?b) = Some (exts @ [?x])"
    unfolding h1 by (simp add: get_after_add)
  show ?thesis
    using csr_add_extension_result [OF g l assms(4), of c2] by simp
qed

text \<open>
  Claim C3. Let two extension values have the same OID. On either builder, adding the
  first succeeds exactly when no extension of the builder has that OID, and then returns
  a new builder whose list is the old one with the new extension appended; otherwise it
  fails with ``This extension has already been set.'' Adding the second to the builder
  the first call returned fails with that error, whatever the two critical flags are.
\<close>

theorem add_extension_duplicate:
  assumes "ExtensionType_oid e1 = Some i" and "ExtensionType_oid e2 = Some i"
  shows "(get_CertificateBuilder h self = Some b \<and> get_list h (cb_extensions b) = Some exts
          \<longrightarrow>
            CertificateBuilder_add_extension self e1 (PyBool c1) h =
              (if \<exists>x \<in> set exts. oid x = i then (Inl already_set, h)
               else (Inr (Suc (length h)),
                     h @ [ListObj (exts @ [\<lparr>oid = i, critical = c1, value' = e1\<rparr>]),
                          CertificateBuilderObj
                            (b\<lparr>cb_version := v3, cb_extensions := length h\<rparr>)]))
            \<and> (\<forall>a h1. CertificateBuilder_add_extension self e1 (PyBool c1) h = (Inr a, h1)
                  \<longrightarrow> CertificateBuilder_add_extension a e2 (PyBool c2) h1
                        = (Inl already_set, h1)))
     \<and> (get_CertificateSigningRequestBuilder h self = Some r
          \<and> get_list h (csr_extensions r) = Some exts
          \<longrightarrow>
            CertificateSigningRequestBuilder_add_extension self e1 (PyBool c1) h =
              (if \<exists>x \<in> set exts. oid x = i then (Inl already_set, h)
               else (Inr (Suc (length h)),
                     h @ [ListObj (exts @ [\<lparr>oid = i, critical = c1, value' = e1\<rparr>]),
                          CertificateSigningRequestBuilderObj
                            (r\<lparr>csr_extensions := length h\<rparr>)]))
            \<and> (\<forall>a h1. CertificateSigningRequestBuilder_add_extension self e1 (PyBool c1) h
                         = (Inr a, h1)
                  \<longrightarrow> CertificateSigningRequestBuilder_add_extension a e2 (PyBool c2) h1
                        = (Inl already_set, h1)))"
proof (intro conjI impI allI)
  assume "get_CertificateBuilder h self = Some b \<and> get_list h (cb_extensions b) = Some exts"
  then show "CertificateBuilder_add_extension self e1 (PyBool c1) h =
              (if \<exists>x \<in> set exts. oid x = i then (Inl already_set, h)
               else (Inr (Suc (length h)),
                     h @ [ListObj (exts @ [\<lparr>oid = i, critical = c1, value' = e1\<rparr>]),
                          CertificateBuilderObj
                            (b\<lparr>cb_version := v3, cb_extensions := length h\<rparr>)]))"
    using cb_add_extension_result assms(1) by blast
next
  fix a h1
  assume "get_CertificateBuilder h self = Some b \<and> get_list h (cb_extensions b) = Some exts"
    and "CertificateBuilder_add_extension self e1 (PyBool c1) h = (Inr a, h1)"
  then show "CertificateBuilder_add_extension a e2 (PyBool c2) h1 = (Inl already_set, h1)"
    using cb_add_twice assms by blast
next
  assume "get_CertificateSigningRequestBuilder h self = Some r
          \<and> get_list h (csr_extensions r) = Some exts"
  then show "CertificateSigningRequestBuilder_add_extension self e1 (PyBool c1) h =
              (if \<exists>x \<in> set exts. oid x = i then (Inl already_set, h)
               else (Inr (Suc (length h)),
                     h @ [ListObj (exts @ [\<lparr>oid = i, critical = c1, value' = e1\<rparr>]),
                          CertificateSigningRequestBuilderObj
                            (r\<lparr>csr_extensions := length h\<rparr>)]))"
    using csr_add_extension_result assms(1) by blast
next
  fix a h1
  assume "get_CertificateSigningRequestBuilder h self = Some r
          \<and> get_list h (csr_extensions r) = Some exts"
    and "CertificateSigningRequestBuilder_add_extension self e1 (PyBool c1) h = (Inr a, h1)"
  then show "CertificateSigningRequestBuilder_add_extension a e2 (PyBool c2) h1
               = (Inl already_set, h1)"
    using csr_add_twice assms by blast
qed

text \<open>
  Two \<^verbatim>\<open>InhibitAnyPolicy\<close> values with different critical flags, on the builders as the
  constructors make them: the first is appended, the second is refused.
\<close>

theorem add_extension_duplicate_witness:
  "ExtensionType_oid (InhibitAnyPolicy (PyInt 0)) = Some ExtensionOID_INHIBIT_ANY_POLICY
   \<and> ExtensionType_oid (InhibitAnyPolicy (PyInt 1)) = Some ExtensionOID_INHIBIT_ANY_POLICY
   \<and> get_list (snd new_CertificateBuilder) 1 = Some []
   \<and> CertificateBuilder_add_extension (fst new_CertificateBuilder)
         (InhibitAnyPolicy (PyInt 0)) (PyBool True) (snd new_CertificateBuilder)
       = (Inr 4,
          snd new_CertificateBuilder @
          [ListObj [\<lparr>oid = ExtensionOID_INHIBIT_ANY_POLICY, critical = True,
                     value' = InhibitAnyPolicy (PyInt 0)\<rparr>],
           CertificateBuilderObj
             \<lparr>cb_version = v3, cb_issuer_name = PyNone, cb_subject_name = PyNone,
              cb_public_key = PyNone, cb_serial_number = PyNone,
              cb_not_valid_before = PyNone, cb_not_valid_after = PyNone,
              cb_extensions = 3\<rparr>])
   \<and> CertificateBuilder_add_extension 4 (InhibitAnyPolicy (PyInt 1)) (PyBool False)
         (snd new_CertificateBuilder @
          [ListObj [\<lparr>oid = ExtensionOID_INHIBIT_ANY_POLICY, critical = True,
                     value' = InhibitAnyPolicy (PyInt 0)\<rparr>],
           CertificateBuilderObj
             \<lparr>cb_version = v3, cb_issuer_name = PyNone, cb_subject_name = PyNone,
              cb_public_key = PyNone, cb_serial_number = PyNone,
              cb_not_valid_before = PyNone, cb_not_valid_after = PyNone,
              cb_extensions = 3\<rparr>])
       = (Inl already_set,
          snd new_CertificateBuilder @
          [ListObj [\<lparr>oid = ExtensionOID_INHIBIT_ANY_POLICY, critical = True,
                     value' = InhibitAnyPolicy (PyInt 0)\<rparr>],
           CertificateBuilderObj
             \<lparr>cb_version = v3, cb_issuer_name = PyNone, cb_subject_name = PyNone,
              cb_public_key = PyNone, cb_serial_number = PyNone,
              cb_not_valid_before = PyNone, cb_not_valid_after = PyNone,
              cb_extensions = 3\<rparr>])
   \<and> get_list (snd new_CertificateSigningRequestBuilder) 0 = Some []
   \<and> CertificateSigningRequestBuilder_add_extension (fst new_CertificateSigningRequestBuilder)
         (InhibitAnyPolicy (PyInt 0)) (PyBool True) (snd new_CertificateSigningRequestBuilder)
       = (Inr 4,
          snd new_CertificateSigningRequestBuilder @
          [ListObj [\<lparr>oid = ExtensionOID_INHIBIT_ANY_POLICY, critical = True,
                     value' = InhibitAnyPolicy (PyInt 0)\<rparr>],
           CertificateSigningRequestBuilderObj
             \<lparr>csr_subject_name = PyNone, csr_extensions = 3\<rparr>])
   \<and> CertificateSigningRequestBuilder_add_extension 4 (InhibitAnyPolicy (PyInt 1))
         (PyBool False)
         (snd new_CertificateSigningRequestBuilder @
          [ListObj [\<lparr>oid = ExtensionOID_INHIBIT_ANY_POLICY, critical = True,
                     value' = InhibitAnyPolicy (PyInt 0)\<rparr>],
           CertificateSigningRequestBuilderObj
             \<lparr>csr_subject_name = PyNone, csr_extensions = 3\<rparr>])
       = (Inl already_set,
          snd new_CertificateSigningRequestBuilder @
          [ListObj [\<lparr>oid = ExtensionOID_INHIBIT_ANY_POLICY, critical = True,
                     value' = InhibitAnyPolicy (PyInt 0)\<rparr>],
           CertificateSigningRequestBuilderObj
             \<lparr>csr_subject_name = PyNone, csr_extensions = 3\<rparr>])"
proof -
  let ?b = "\<lparr>cb_version = v3, cb_issuer_name = PyNone, cb_subject_name = PyNone,
           cb_public_key = PyNone, cb_serial_number = PyNone,
           cb_not_valid_before = PyNone, cb_not_valid_after = PyNone,
           cb_extensions = 1\<rparr>"
  let ?r = "\<lparr>csr_subject_name = PyNone, csr_extensions = 0\<rparr>"
  let ?x = "\<lparr>oid = ExtensionOID_INHIBIT_ANY_POLICY, critical = True,
                     value' = InhibitAnyPolicy (PyInt 0)\<rparr>"
  have o1: "ExtensionType_oid (InhibitAnyPolicy (PyInt 0)) = Some ExtensionOID_INHIBIT_ANY_POLICY"
    and o2: "ExtensionType_oid (InhibitAnyPolicy (PyInt 1)) = Some ExtensionOID_INHIBIT_ANY_POLICY"
    by simp_all
  have lb: "get_list (snd new_CertificateBuilder) (cb_extensions ?b) = Some []"
    by (simp add: new_CertificateBuilder_eq get_list_def lookup_def)
  have lr: "get_list (snd new_CertificateSigningRequestBuilder) (csr_extensions ?r) = Some []"
    by (simp add: new_CertificateSigningRequestBuilder_eq get_list_def lookup_def)
  have nb: "length (snd new_CertificateBuilder) = 3"
    by (simp add: new_CertificateBuilder_eq)
  have nr: "length (snd new_CertificateSigningRequestBuilder) = 3"
    by (simp add: new_CertificateSigningRequestBuilder_eq)
  note t = add_extension_duplicate [OF o1 o2]
  note tb = t [of "snd new_CertificateBuilder" "fst new_CertificateBuilder" ?b "[]" True False ?r,
               THEN conjunct1, rule_format, OF conjI, OF get_new_CertificateBuilder lb]
  note tr = t [of "snd new_CertificateSigningRequestBuilder"
                  "fst new_CertificateSigningRequestBuilder" ?b "[]" True False ?r,
               THEN conjunct2, rule_format, OF conjI,
               OF get_new_CertificateSigningRequestBuilder lr]
  have b1: "CertificateBuilder_add_extension (fst new_CertificateBuilder)
         (InhibitAnyPolicy (PyInt 0)) (PyBool True) (snd new_CertificateBuilder)
       = (Inr 4, snd new_CertificateBuilder @
            [ListObj [?x], CertificateBuilderObj (?b\<lparr>cb_extensions := 3\<rparr>)])"
    using tb [THEN conjunct1] nb by simp
  have b2: "CertificateBuilder_add_extension 4 (InhibitAnyPolicy (PyInt 1)) (PyBool False)
         (snd new_CertificateBuilder @
            [ListObj [?x], CertificateBuilderObj (?b\<lparr>cb_extensions := 3\<rparr>)])
       = (Inl already_set, snd new_CertificateBuilder @
            [ListObj [?x], CertificateBuilderObj (?b\<lparr>cb_extensions := 3\<rparr>)])"
    using tb [THEN conjunct2, rule_format, OF b1] .
  have r1: "CertificateSigningRequestBuilder_add_extension
         (fst new_CertificateSigningRequestBuilder)
         (InhibitAnyPolicy (PyInt 0)) (PyBool True) (snd new_CertificateSigningRequestBuilder)
       = (Inr 4, snd new_CertificateSigningRequestBuilder @
            [ListObj [?x], CertificateSigningRequestBuilderObj (?r\<lparr>csr_extensions := 3\<rparr>)])"
    using tr [THEN conjunct1] nr by simp
  have r2: "CertificateSigningRequestBuilder_add_extension 4 (InhibitAnyPolicy (PyInt 1))
         (PyBool False)
         (snd new_CertificateSigningRequestBuilder @
            [ListObj [?x], CertificateSigningRequestBuilderObj (?r\<lparr>csr_extensions := 3\<rparr>)])
       = (Inl already_set, snd new_CertificateSigningRequestBuilder @
            [ListObj [?x], CertificateSigningRequestBuilderObj (?r\<lparr>csr_extensions := 3\<rparr>)])"
    using tr [THEN conjunct2, rule_format, OF r1] .
  from o1 o2 lb lr b1 b2 r1 r2 show ?thesis by simp
qed

subsection \<open>The serial number\<close>

lemma serial_number_result:
  "get_CertificateBuilder h self = Some b \<Longrightarrow> cb_serial_number b = PyNone \<Longrightarrow>
   CertificateBuilder_serial_number self (PyInt n) h =
     (if n < 0 then (Inl (ValueError ''The serial number should be non-negative.''), h)
      else if 2 ^ 160 \<le> n
      then (Inl (ValueError ''The serial number should not be more than 160 bits.''), h)
      else (Inr (length h),
            h @ [CertificateBuilderObj (b\<lparr>cb_version := v3, cb_serial_number := PyInt n\<rparr>)]))"
  by (cases b)
     (auto simp: CertificateBuilder_serial_number_def CertificateBuilder_init_def alloc_def
        bit_length_gt)

text \<open>
  Claim C4. On a builder whose serial number is unset, \<^verbatim>\<open>serial_number(n)\<close> raises
  \<^verbatim>\<open>ValueError\<close> for every negative integer and for every integer whose bit length
  exceeds 160 (that is, whose absolute value is \<open>2 ^ 160\<close> or more), and for
  \<open>0 \<le> n < 2 ^ 160\<close> returns a new builder that stores \<open>n\<close> unchanged. The check is
  the setter's: \<^verbatim>\<open>sign\<close> hands any builder with every attribute set to the backend,
  whatever its serial number.
\<close>

theorem serial_number_range:
  assumes "get_CertificateBuilder h self = Some b" and "cb_serial_number b = PyNone"
  shows "(n < 0 \<longrightarrow>
            CertificateBuilder_serial_number self (PyInt n) h =
              (Inl (ValueError ''The serial number should be non-negative.''), h))
     \<and> (160 < bit_length n \<longrightarrow>
            (\<exists>msg. CertificateBuilder_serial_number self (PyInt n) h = (Inl (ValueError msg), h)))
     \<and> (160 < bit_length n \<longleftrightarrow> 2 ^ 160 \<le> \<bar>n\<bar>)
     \<and> (0 \<le> n \<and> n < 2 ^ 160 \<longrightarrow>
            CertificateBuilder_serial_number self (PyInt n) h =
              (Inr (length h),
               h @ [CertificateBuilderObj (b\<lparr>cb_version := v3, cb_serial_number := PyInt n\<rparr>)]))
     \<and> (\<forall>h' a b' m pk alg backend calls.
            get_CertificateBuilder h' a = Some b' \<and> complete b' \<and> cb_serial_number b' = PyInt m
            \<longrightarrow> CertificateBuilder_sign a pk alg backend h' calls =
                  (backend (create_x509_certificate a pk alg) h',
                   calls @ [create_x509_certificate a pk alg]))"
  using serial_number_result [OF assms, of n] bit_length_gt [of n] sign_complete
  by auto

text \<open>
  \<open>2 ^ 159\<close> is stored, \<open>- 1\<close> and \<open>2 ^ 161\<close> are refused; a builder made with the serial
  number \<open>- 1\<close> by the constructor is signed.
\<close>

theorem serial_number_range_witness:
  "get_CertificateBuilder (snd new_CertificateBuilder) (fst new_CertificateBuilder) =
     Some \<lparr>cb_version = v3, cb_issuer_name = PyNone, cb_subject_name = PyNone,
           cb_public_key = PyNone, cb_serial_number = PyNone,
           cb_not_valid_before = PyNone, cb_not_valid_after = PyNone,
           cb_extensions = 1\<rparr>
   \<and> CertificateBuilder_serial_number (fst new_CertificateBuilder) (PyInt (2 ^ 159))
         (snd new_CertificateBuilder)
       = (Inr 3, snd new_CertificateBuilder @ [CertificateBuilderObj
            \<lparr>cb_version = v3, cb_issuer_name = PyNone, cb_subject_name = PyNone,
             cb_public_key = PyNone, cb_serial_number = PyInt (2 ^ 159),
             cb_not_valid_before = PyNone, cb_not_valid_after = PyNone,
             cb_extensions = 1\<rparr>])
   \<and> CertificateBuilder_serial_number (fst new_CertificateBuilder) (PyInt (- 1))
         (snd new_CertificateBuilder)
       = (Inl (ValueError ''The serial number should be non-negative.''),
          snd new_CertificateBuilder)
   \<and> (\<exists>msg. CertificateBuilder_serial_number (fst new_CertificateBuilder) (PyInt (2 ^ 161))
               (snd new_CertificateBuilder)
             = (Inl (ValueError msg), snd new_CertificateBuilder))
   \<and> CertificateBuilder_sign 1 PyNone PyNone (\<lambda>c h. Inr ())
         [ListObj [], CertificateBuilderObj
            \<lparr>cb_version = v3, cb_issuer_name = PyName (Name []),
             cb_subject_name = PyName (Name []),
             cb_public_key = PyPublicKey RSAPublicKey [], cb_serial_number = PyInt (- 1),
             cb_not_valid_before = PyInt 0, cb_not_valid_after = PyInt 0,
             cb_extensions = 0\<rparr>] []
       = (Inr (), [create_x509_certificate 1 PyNone PyNone])"
proof -
  let ?b = "\<lparr>cb_version = v3, cb_issuer_name = PyNone, cb_subject_name = PyNone,
           cb_public_key = PyNone, cb_serial_number = PyNone,
           cb_not_valid_before = PyNone, cb_not_valid_after = PyNone,
           cb_extensions = 1\<rparr>"
  let ?c = "\<lparr>cb_version = v3, cb_issuer_name = PyName (Name []),
             cb_subject_name = PyName (Name []),
             cb_public_key = PyPublicKey RSAPublicKey [], cb_serial_number = PyInt (- 1),
             cb_not_valid_before = PyInt 0, cb_not_valid_after = PyInt 0,
             cb_extensions = 0\<rparr>"
  have s: "cb_serial_number ?b = PyNone" by simp
  have l: "length (snd new_CertificateBuilder) = 3" by (simp add: new_CertificateBuilder_eq)
  have c: "get_CertificateBuilder [ListObj [], CertificateBuilderObj ?c] 1 = Some ?c
           \<and> complete ?c \<and> cb_serial_number ?c = PyInt (- 1)"
    by (simp add: get_CertificateBuilder_def lookup_def complete_def)
  have big: "(2::int) ^ 160 \<le> \<bar>2 ^ 161\<bar>" by simp
  note r = serial_number_range [OF get_new_CertificateBuilder s]
  have r159: "CertificateBuilder_serial_number (fst new_CertificateBuilder) (PyInt (2 ^ 159))
         (snd new_CertificateBuilder)
       = (Inr 3, snd new_CertificateBuilder @ [CertificateBuilderObj
            \<lparr>cb_version = v3, cb_issuer_name = PyNone, cb_subject_name = PyNone,
             cb_public_key = PyNone, cb_serial_number = PyInt (2 ^ 159),
             cb_not_valid_before = PyNone, cb_not_valid_after = PyNone,
             cb_extensions = 1\<rparr>])"
    using r [of "2 ^ 159", THEN conjunct2, THEN conjunct2, THEN conjunct2, THEN conjunct1] l
    by simp
  have rneg: "CertificateBuilder_serial_number (fst new_CertificateBuilder) (PyInt (- 1))
         (snd new_CertificateBuilder)
       = (Inl (ValueError ''The serial number should be non-negative.''),
          snd new_CertificateBuilder)"
    using r [of "- 1", THEN conjunct1] by simp
  have r161: "\<exists>msg. CertificateBuilder_serial_number (fst new_CertificateBuilder)
               (PyInt (2 ^ 161)) (snd new_CertificateBuilder)
             = (Inl (ValueError msg), snd new_CertificateBuilder)"
    using r [of "2 ^ 161", THEN conjunct2, THEN conjunct1]
          r [of "2 ^ 161", THEN conjunct2, THEN conjunct2, THEN conjunct1] big
    by simp
  have sg: "CertificateBuilder_sign 1 PyNone PyNone (\<lambda>c h. Inr ())
         [ListObj [], CertificateBuilderObj ?c] []
       = (Inr (), [create_x509_certificate 1 PyNone PyNone])"
    using r [of 0, THEN conjunct2, THEN conjunct2, THEN conjunct2, THEN conjunct2,
             rule_format, of "[ListObj [], CertificateBuilderObj ?c]" 1 ?c "- 1"
               PyNone PyNone "\<lambda>c h. Inr ()" "[]"] c
    by simp
  from get_new_CertificateBuilder r159 rneg r161 sg show ?thesis by blast
qed

subsection \<open>Name constraints\<close>

lemma check_subtrees_iff:
  "(\<exists>u. check_subtrees m t = Inr u) = valid_subtrees t"
  by (auto simp: check_subtrees_def valid_subtrees_def py_all_def py_any_def validate_ip_name_def
           split: sum.splits bool.splits)

text \<open>
  Claim C5, as the code has it. Constructing a \<^verbatim>\<open>NameConstraints\<close> value with both
  arguments \<^verbatim>\<open>None\<close> fails; it succeeds exactly when at least one argument is not
  \<^verbatim>\<open>None\<close> and each supplied argument holds general names only, every \<^verbatim>\<open>IPAddress\<close>
  among them wrapping a network; an \<^verbatim>\<open>IPAddress\<close> wrapping a bare address in a supplied
  argument makes the construction fail.
\<close>

theorem NameConstraints_init_at_least_one:
  "NameConstraints_init PyNone PyNone =
     Inl (ValueError ''At least one of permitted_subtrees and excluded_subtrees must not be None'')
   \<and> (NameConstraints_init p e = Inr v) =
       (v = NameConstraints p e \<and> valid_subtrees p \<and> valid_subtrees e
        \<and> \<not> (p = PyNone \<and> e = PyNone))
   \<and> (\<forall>names. (p \<noteq> PyNone \<and> py_iter p = Inr names \<or> e \<noteq> PyNone \<and> py_iter e = Inr names)
         \<and> (\<exists>name \<in> set names. is_IPAddress name \<and> \<not> value_is_network name)
         \<longrightarrow> (\<exists>err. NameConstraints_init p e = Inl err))"
proof (intro conjI allI impI)
  show "NameConstraints_init PyNone PyNone =
     Inl (ValueError ''At least one of permitted_subtrees and excluded_subtrees must not be None'')"
    by (simp add: NameConstraints_init_def check_subtrees_def)
next
  show "(NameConstraints_init p e = Inr v) =
       (v = NameConstraints p e \<and> valid_subtrees p \<and> valid_subtrees e
        \<and> \<not> (p = PyNone \<and> e = PyNone))"
    unfolding NameConstraints_init_def
    using check_subtrees_iff[of "''permitted_subtrees must be a list of GeneralName objects or None''" p]
          check_subtrees_iff[of "''excluded_subtrees must be a list of GeneralName objects or None''" e]
    by (auto split: sum.splits)
next
  fix names
  assume a: "(p \<noteq> PyNone \<and> py_iter p = Inr names \<or> e \<noteq> PyNone \<and> py_iter e = Inr names)
         \<and> (\<exists>name \<in> set names. is_IPAddress name \<and> \<not> value_is_network name)"
  then have "\<not> valid_subtrees p \<or> \<not> valid_subtrees e"
    by (auto simp: valid_subtrees_def list_ex_iff)
  then have "\<forall>v. NameConstraints_init p e \<noteq> Inr v"
    unfolding NameConstraints_init_def
    using check_subtrees_iff[of "''permitted_subtrees must be a list of GeneralName objects or None''" p]
          check_subtrees_iff[of "''excluded_subtrees must be a list of GeneralName objects or None''" e]
    by (auto split: sum.splits)
  then show "\<exists>err. NameConstraints_init p e = Inl err"
    by (cases "NameConstraints_init p e") auto
qed

text \<open>A bare address in the permitted subtrees is refused, the network around it is accepted.\<close>

theorem NameConstraints_init_at_least_one_witness:
  "PyList [PyGeneralName (IPAddress (IPv4Address 3232235777))] \<noteq> PyNone
   \<and> py_iter (PyList [PyGeneralName (IPAddress (IPv4Address 3232235777))])
       = Inr [PyGeneralName (IPAddress (IPv4Address 3232235777))]
   \<and> is_IPAddress (PyGeneralName (IPAddress (IPv4Address 3232235777)))
   \<and> \<not> value_is_network (PyGeneralName (IPAddress (IPv4Address 3232235777)))
   \<and> (\<exists>err. NameConstraints_init
               (PyList [PyGeneralName (IPAddress (IPv4Address 3232235777))]) PyNone = Inl err)
   \<and> NameConstraints_init (PyList [PyGeneralName (IPAddress (IPv4Network 3232235776 24))]) PyNone
       = Inr (NameConstraints (PyList [PyGeneralName (IPAddress (IPv4Network 3232235776 24))])
                PyNone)"
  using NameConstraints_init_at_least_one
          [of "PyList [PyGeneralName (IPAddress (IPv4Address 3232235777))]" PyNone
              "NameConstraints (PyList [PyGeneralName (IPAddress (IPv4Address 3232235777))]) PyNone"]
        NameConstraints_init_at_least_one
          [of "PyList [PyGeneralName (IPAddress (IPv4Network 3232235776 24))]" PyNone
              "NameConstraints (PyList [PyGeneralName (IPAddress (IPv4Network 3232235776 24))]) PyNone"]
  by (simp add: valid_subtrees_def)

text \<open>
  Claim C5 as stated fails for two supplied arguments: the construction with both
  subtrees given succeeds.
\<close>

theorem NameConstraints_both_counterexample:
  "NameConstraints_init (PyList [PyGeneralName (DNSName ''example.com'')])
       (PyList [PyGeneralName (DNSName ''example.org'')])
     = Inr (NameConstraints (PyList [PyGeneralName (DNSName ''example.com'')])
              (PyList [PyGeneralName (DNSName ''example.org'')]))"
  by (simp add: NameConstraints_init_def check_subtrees_def py_all_def py_any_def
        validate_ip_name_def)

subsection \<open>The validity window\<close>

lemma lex_le_epoch:
  "1 \<le> month t \<Longrightarrow> 1 \<le> day t \<Longrightarrow>
   lex_le (wall_clock t) (wall_clock UNIX_EPOCH)
     \<longleftrightarrow> (year t < 1970 \<or> wall_clock t = [1970, 1, 1, 0, 0, 0, 0])"
  by (auto simp: wall_clock_def UNIX_EPOCH_def)

lemma not_valid_before_result:
  "get_CertificateBuilder h self = Some b \<Longrightarrow> cb_not_valid_before b = PyNone \<Longrightarrow>
   utcoffset t = None \<Longrightarrow>
   CertificateBuilder_not_valid_before self (PyDatetime t) h =
     (if lex_le (wall_clock t) (wall_clock UNIX_EPOCH)
      then (Inl (ValueError
        ''The not valid before date must be after the unix epoch (1970 January 1).''), h)
      else (Inr (length h),
            h @ [CertificateBuilderObj
                   (b\<lparr>cb_version := v3, cb_not_valid_before := PyDatetime t\<rparr>)]))"
  by (cases b)
     (simp add: CertificateBuilder_not_valid_before_def CertificateBuilder_init_def alloc_def
        le_UNIX_EPOCH_def)

lemma not_valid_after_result:
  "get_CertificateBuilder h self = Some b \<Longrightarrow> cb_not_valid_after b = PyNone \<Longrightarrow>
   utcoffset t = None \<Longrightarrow>
   CertificateBuilder_not_valid_after self (PyDatetime t) h =
     (if lex_le (wall_clock t) (wall_clock UNIX_EPOCH)
      then (Inl (ValueError
        ''The not valid after date must be after the unix epoch (1970 January 1).''), h)
      else (Inr (length h),
            h @ [CertificateBuilderObj
                   (b\<lparr>cb_version := v3, cb_not_valid_after := PyDatetime t\<rparr>)]))"
  by (cases b)
     (simp add: CertificateBuilder_not_valid_after_def CertificateBuilder_init_def alloc_def
        le_UNIX_EPOCH_def)

text \<open>
  Claim C6, as the code has it. For a naive datetime \<open>t\<close> (one without UTC offset),
  \<^verbatim>\<open>not_valid_before(t)\<close> and \<^verbatim>\<open>not_valid_after(t)\<close>, each called on a builder where the
  attribute is unset, fail if and only if \<open>t\<close> is not strictly after 1970-01-01 00:00:00,
  and otherwise return a new builder storing \<open>t\<close>. Neither setter looks at the other
  attribute, and \<^verbatim>\<open>sign\<close> hands a builder with every attribute set to the backend
  whatever the two dates are, so no ordering between them is checked.
\<close>

theorem validity_window_naive:
  assumes "get_CertificateBuilder h self = Some b"
    and "utcoffset t = None" and "1 \<le> month t" and "1 \<le> day t"
  shows "(cb_not_valid_before b = PyNone \<longrightarrow>
            ((\<exists>e. fst (CertificateBuilder_not_valid_before self (PyDatetime t) h) = Inl e)
               \<longleftrightarrow> \<not> after_epoch t)
            \<and> (after_epoch t \<longrightarrow>
                 CertificateBuilder_not_valid_before self (PyDatetime t) h =
                   (Inr (length h),
                    h @ [CertificateBuilderObj
                           (b\<lparr>cb_version := v3, cb_not_valid_before := PyDatetime t\<rparr>)])))
     \<and> (cb_not_valid_after b = PyNone \<longrightarrow>
            ((\<exists>e. fst (CertificateBuilder_not_valid_after self (PyDatetime t) h) = Inl e)
               \<longleftrightarrow> \<not> after_epoch t)
            \<and> (after_epoch t \<longrightarrow>
                 CertificateBuilder_not_valid_after self (PyDatetime t) h =
                   (Inr (length h),
                    h @ [CertificateBuilderObj
                           (b\<lparr>cb_version := v3, cb_not_valid_after := PyDatetime t\<rparr>)])))
     \<and> (complete b \<longrightarrow>
            (\<forall>pk alg backend calls.
               CertificateBuilder_sign self pk alg backend h calls =
                 (backend (create_x509_certificate self pk alg) h,
                  calls @ [create_x509_certificate self pk alg])))"
proof -
  have e: "lex_le (wall_clock t) (wall_clock UNIX_EPOCH) \<longleftrightarrow> \<not> after_epoch t"
    using lex_le_epoch [OF assms(3,4)] by (auto simp: after_epoch_def wall_clock_def)
  show ?thesis
    using not_valid_before_result [OF assms(1) _ assms(2)]
          not_valid_after_result [OF assms(1) _ assms(2)]
          sign_complete [OF assms(1)] e
    by auto
qed

text \<open>
  A builder valid from 2030 accepts 2020 as its \<^verbatim>\<open>not_valid_after\<close>; the epoch itself is
  refused; a builder with \<^verbatim>\<open>not_valid_after\<close> before \<^verbatim>\<open>not_valid_before\<close> is signed.
\<close>

theorem validity_window_naive_witness:
  "get_CertificateBuilder
       [ListObj [], CertificateBuilderObj
          \<lparr>cb_version = v3, cb_issuer_name = PyNone, cb_subject_name = PyNone,
           cb_public_key = PyNone, cb_serial_number = PyNone,
           cb_not_valid_before = PyDatetime (datetime_ymd 2030 1 1),
           cb_not_valid_after = PyNone, cb_extensions = 0\<rparr>] 1
     = Some \<lparr>cb_version = v3, cb_issuer_name = PyNone, cb_subject_name = PyNone,
           cb_public_key = PyNone, cb_serial_number = PyNone,
           cb_not_valid_before = PyDatetime (datetime_ymd 2030 1 1),
           cb_not_valid_after = PyNone, cb_extensions = 0\<rparr>
   \<and> utcoffset (datetime_ymd 2020 1 1) = None \<and> after_epoch (datetime_ymd 2020 1 1)
   \<and> CertificateBuilder_not_valid_after 1 (PyDatetime (datetime_ymd 2020 1 1))
       [ListObj [], CertificateBuilderObj
          \<lparr>cb_version = v3, cb_issuer_name = PyNone, cb_subject_name = PyNone,
           cb_public_key = PyNone, cb_serial_number = PyNone,
           cb_not_valid_before = PyDatetime (datetime_ymd 2030 1 1),
           cb_not_valid_after = PyNone, cb_extensions = 0\<rparr>]
     = (Inr 2,
        [ListObj [], CertificateBuilderObj
          \<lparr>cb_version = v3, cb_issuer_name = PyNone, cb_subject_name = PyNone,
           cb_public_key = PyNone, cb_serial_number = PyNone,
           cb_not_valid_before = PyDatetime (datetime_ymd 2030 1 1),
           cb_not_valid_after = PyNone, cb_extensions = 0\<rparr>,
         CertificateBuilderObj
          \<lparr>cb_version = v3, cb_issuer_name = PyNone, cb_subject_name = PyNone,
           cb_public_key = PyNone, cb_serial_number = PyNone,
           cb_not_valid_before = PyDatetime (datetime_ymd 2030 1 1),
           cb_not_valid_after = PyDatetime (datetime_ymd 2020 1 1), cb_extensions = 0\<rparr>])
   \<and> (\<exists>e. fst (CertificateBuilder_not_valid_before (fst new_CertificateBuilder)
                  (PyDatetime (datetime_ymd 1970 1 1)) (snd new_CertificateBuilder)) = Inl e)
   \<and> CertificateBuilder_sign 1 PyNone PyNone (\<lambda>c h. Inr ())
         [ListObj [], CertificateBuilderObj
            \<lparr>cb_version = v3, cb_issuer_name = PyName (Name []),
             cb_subject_name = PyName (Name []),
             cb_public_key = PyPublicKey RSAPublicKey [], cb_serial_number = PyInt 1,
             cb_not_valid_before = PyDatetime (datetime_ymd 2030 1 1),
             cb_not_valid_after = PyDatetime (datetime_ymd 2020 1 1),
             cb_extensions = 0\<rparr>] []
       = (Inr (), [create_x509_certificate 1 PyNone PyNone])"
proof -
  let ?b = "\<lparr>cb_version = v3, cb_issuer_name = PyNone, cb_subject_name = PyNone,
           cb_public_key = PyNone, cb_serial_number = PyNone,
           cb_not_valid_before = PyDatetime (datetime_ymd 2030 1 1),
           cb_not_valid_after = PyNone, cb_extensions = 0\<rparr>"
  let ?c = "\<lparr>cb_version = v3, cb_issuer_name = PyName (Name []),
             cb_subject_name = PyName (Name []),
             cb_public_key = PyPublicKey RSAPublicKey [], cb_serial_number = PyInt 1,
             cb_not_valid_before = PyDatetime (datetime_ymd 2030 1 1),
             cb_not_valid_after = PyDatetime (datetime_ymd 2020 1 1),
             cb_extensions = 0\<rparr>"
  have gb: "get_CertificateBuilder [ListObj [], CertificateBuilderObj ?b] 1 = Some ?b"
    by (simp add: get_CertificateBuilder_def lookup_def)
  have gc: "get_CertificateBuilder [ListObj [], CertificateBuilderObj ?c] 1 = Some ?c"
    by (simp add: get_CertificateBuilder_def lookup_def)
  have d: "utcoffset (datetime_ymd 2020 1 1) = None" "1 \<le> month (datetime_ymd 2020 1 1)"
      "1 \<le> day (datetime_ymd 2020 1 1)" "after_epoch (datetime_ymd 2020 1 1)"
    by (simp_all add: datetime_ymd_def after_epoch_def)
  have e: "utcoffset (datetime_ymd 1970 1 1) = None" "1 \<le> month (datetime_ymd 1970 1 1)"
      "1 \<le> day (datetime_ymd 1970 1 1)" "\<not> after_epoch (datetime_ymd 1970 1 1)"
    by (simp_all add: datetime_ymd_def after_epoch_def wall_clock_def)
  have r1: "CertificateBuilder_not_valid_after 1 (PyDatetime (datetime_ymd 2020 1 1))
       [ListObj [], CertificateBuilderObj ?b]
     = (Inr 2,
        [ListObj [], CertificateBuilderObj ?b,
         CertificateBuilderObj
          \<lparr>cb_version = v3, cb_issuer_name = PyNone, cb_subject_name = PyNone,
           cb_public_key = PyNone, cb_serial_number = PyNone,
           cb_not_valid_before = PyDatetime (datetime_ymd 2030 1 1),
           cb_not_valid_after = PyDatetime (datetime_ymd 2020 1 1), cb_extensions = 0\<rparr>])"
    using validity_window_naive [OF gb d(1,2,3), THEN conjunct2, THEN conjunct1] d(4)
    by simp
  have r2: "\<exists>e. fst (CertificateBuilder_not_valid_before (fst new_CertificateBuilder)
                  (PyDatetime (datetime_ymd 1970 1 1)) (snd new_CertificateBuilder)) = Inl e"
    using validity_window_naive [OF get_new_CertificateBuilder e(1,2,3), THEN conjunct1] e(4)
    by simp
  have r3: "CertificateBuilder_sign 1 PyNone PyNone (\<lambda>c h. Inr ())
         [ListObj [], CertificateBuilderObj ?c] []
       = (Inr (), [create_x509_certificate 1 PyNone PyNone])"
  proof -
    have "complete ?c" by (simp add: complete_def)
    with validity_window_naive [OF gc d(1,2,3), THEN conjunct2, THEN conjunct2]
    have "\<forall>pk alg backend calls.
            CertificateBuilder_sign 1 pk alg backend [ListObj [], CertificateBuilderObj ?c] calls =
              (backend (create_x509_certificate 1 pk alg) [ListObj [], CertificateBuilderObj ?c],
               calls @ [create_x509_certificate 1 pk alg])"
      by blast
    from this [rule_format, of PyNone PyNone "\<lambda>c h. Inr ()" "[]"] show ?thesis by simp
  qed
  from gb d(1,4) r1 r2 r3 show ?thesis by blast
qed

text \<open>
  Claim C6 as stated fails for an aware datetime: 2020-01-01 00:00:00 UTC is strictly
  after the epoch, and the setter raises \<^verbatim>\<open>TypeError\<close> when it compares it with the naive
  epoch.
\<close>

theorem validity_window_aware_counterexample:
  "after_epoch ((datetime_ymd 2020 1 1)\<lparr>utcoffset := Some 0\<rparr>)
   \<and> CertificateBuilder_not_valid_before (fst new_CertificateBuilder)
       (PyDatetime ((datetime_ymd 2020 1 1)\<lparr>utcoffset := Some 0\<rparr>))
       (snd new_CertificateBuilder)
     = (Inl (TypeError ''can't compare offset-naive and offset-aware datetimes''),
        snd new_CertificateBuilder)"
  by (simp add: after_epoch_def datetime_ymd_def CertificateBuilder_not_valid_before_def
        get_new_CertificateBuilder le_UNIX_EPOCH_def)

subsection \<open>Distribution points\<close>

lemma DistributionPoint_init_Inr:
  "DistributionPoint_init fn rn r ci = Inr v \<Longrightarrow> truthy r \<Longrightarrow> valid_reasons r"
  by (cases r)
     (auto simp: DistributionPoint_init_def py_all_def and_not_all_def
           split: if_splits sum.splits bool.splits)

lemma DistributionPoint_init_empty:
  "DistributionPoint_init fn rn (PyFrozenset []) ci =
     (case DistributionPoint_init fn rn PyNone ci of
        Inl e \<Rightarrow> Inl e
      | Inr v \<Rightarrow> Inr (DistributionPoint fn rn (PyFrozenset []) ci))"
  by (auto simp: DistributionPoint_init_def and_not_all_def split: sum.splits bool.splits)

text \<open>
  Claim C7, as the code has it. Constructing a \<^verbatim>\<open>DistributionPoint\<close> with a
  \<^verbatim>\<open>reasons\<close> argument that is true (not \<^verbatim>\<open>None\<close> and not empty) fails unless the
  argument is a frozenset of \<^verbatim>\<open>ReasonFlags\<close> that contains neither \<^verbatim>\<open>unspecified\<close> nor
  \<^verbatim>\<open>remove_from_crl\<close>; an empty frozenset of reasons is accepted where \<^verbatim>\<open>None\<close> is.
\<close>

theorem DistributionPoint_reasons:
  "(truthy r \<and> \<not> valid_reasons r \<longrightarrow> (\<exists>e. DistributionPoint_init fn rn r ci = Inl e))
   \<and> DistributionPoint_init fn rn (PyFrozenset []) ci =
       (case DistributionPoint_init fn rn PyNone ci of
          Inl e \<Rightarrow> Inl e
        | Inr v \<Rightarrow> Inr (DistributionPoint fn rn (PyFrozenset []) ci))"
proof (intro conjI impI)
  assume a: "truthy r \<and> \<not> valid_reasons r"
  show "\<exists>e. DistributionPoint_init fn rn r ci = Inl e"
  proof (cases "DistributionPoint_init fn rn r ci")
    case (Inl e)
    then show ?thesis by blast
  next
    case (Inr v)
    with a DistributionPoint_init_Inr show ?thesis by blast
  qed
next
  show "DistributionPoint_init fn rn (PyFrozenset []) ci =
       (case DistributionPoint_init fn rn PyNone ci of
          Inl e \<Rightarrow> Inl e
        | Inr v \<Rightarrow> Inr (DistributionPoint fn rn (PyFrozenset []) ci))"
    by (rule DistributionPoint_init_empty)
qed

text \<open>A set of reasons that contains \<^verbatim>\<open>unspecified\<close> is refused.\<close>

theorem DistributionPoint_reasons_witness:
  "truthy (PyFrozenset [PyReasonFlags key_compromise, PyReasonFlags unspecified])
   \<and> \<not> valid_reasons (PyFrozenset [PyReasonFlags key_compromise, PyReasonFlags unspecified])
   \<and> (\<exists>e. DistributionPoint_init (PyList [PyGeneralName (DNSName ''crl.example.com'')]) PyNone
            (PyFrozenset [PyReasonFlags key_compromise, PyReasonFlags unspecified]) PyNone = Inl e)"
  using DistributionPoint_reasons [of "PyFrozenset [PyReasonFlags key_compromise, PyReasonFlags unspecified]"
      "PyList [PyGeneralName (DNSName ''crl.example.com'')]" PyNone PyNone]
  by simp

text \<open>
  Claim C7 as stated fails for the empty set: the construction with an empty frozenset
  of reasons succeeds and stores it.
\<close>

theorem DistributionPoint_empty_reasons_counterexample:
  "DistributionPoint_init PyNone PyNone (PyFrozenset []) PyNone =
     Inr (DistributionPoint PyNone PyNone (PyFrozenset []) PyNone)"
  by (simp add: DistributionPoint_init_def and_not_all_def)

subsection \<open>Setters leave the store as it was\<close>

lemma pure_outcome_error: "pure_outcome h (Inl e, h)"
  by (simp add: pure_outcome_def)

lemma pure_outcome_cb: "pure_outcome h (Inr (length h), h @ [CertificateBuilderObj b])"
  by (simp add: pure_outcome_def get_CertificateBuilder_def lookup_def)

lemma pure_outcome_csr:
  "pure_outcome h (Inr (length h), h @ [CertificateSigningRequestBuilderObj b])"
  by (simp add: pure_outcome_def get_CertificateSigningRequestBuilder_def lookup_def)

lemma pure_outcome_cb2:
  "pure_outcome h (Inr (Suc (length h)), h @ [x, CertificateBuilderObj b])"
  by (simp add: pure_outcome_def get_CertificateBuilder_def lookup_def nth_append)

lemma pure_outcome_csr2:
  "pure_outcome h (Inr (Suc (length h)), h @ [x, CertificateSigningRequestBuilderObj b])"
  by (simp add: pure_outcome_def get_CertificateSigningRequestBuilder_def lookup_def nth_append)

lemmas pure_outcomes =
  pure_outcome_error pure_outcome_cb pure_outcome_csr pure_outcome_cb2 pure_outcome_csr2

lemma pure_issuer_name: "pure_outcome h (CertificateBuilder_issuer_name self v h)"
  by (simp add: CertificateBuilder_issuer_name_def CertificateBuilder_init_def alloc_def
        pure_outcomes split: option.splits)

lemma pure_subject_name: "pure_outcome h (CertificateBuilder_subject_name self v h)"
  by (simp add: CertificateBuilder_subject_name_def CertificateBuilder_init_def alloc_def
        pure_outcomes split: option.splits)

lemma pure_public_key: "pure_outcome h (CertificateBuilder_public_key self v h)"
  by (simp add: CertificateBuilder_public_key_def CertificateBuilder_init_def alloc_def
        pure_outcomes split: option.splits)

lemma pure_serial_number: "pure_outcome h (CertificateBuilder_serial_number self v h)"
  by (simp add: CertificateBuilder_serial_number_def CertificateBuilder_init_def alloc_def
        pure_outcomes split: option.splits)

lemma pure_not_valid_before: "pure_outcome h (CertificateBuilder_not_valid_before self v h)"
  by (simp add: CertificateBuilder_not_valid_before_def CertificateBuilder_init_def alloc_def
        pure_outcomes split: option.splits sum.splits bool.splits)

lemma pure_not_valid_after: "pure_outcome h (CertificateBuilder_not_valid_after self v h)"
  by (simp add: CertificateBuilder_not_valid_after_def CertificateBuilder_init_def alloc_def
        pure_outcomes split: option.splits sum.splits bool.splits)

lemma pure_add_extension: "pure_outcome h (CertificateBuilder_add_extension self v c h)"
  by (simp add: CertificateBuilder_add_extension_def CertificateBuilder_init_def alloc_def
        pure_outcomes split: option.splits sum.splits)

lemma pure_csr_subject_name:
  "pure_outcome h (CertificateSigningRequestBuilder_subject_name self v h)"
  by (simp add: CertificateSigningRequestBuilder_subject_name_def
        CertificateSigningRequestBuilder_init_def alloc_def pure_outcomes split: option.splits)

lemma pure_csr_add_extension:
  "pure_outcome h (CertificateSigningRequestBuilder_add_extension self v c h)"
  by (simp add: CertificateSigningRequestBuilder_add_extension_def
        CertificateSigningRequestBuilder_init_def alloc_def pure_outcomes
        split: option.splits sum.splits)

lemma pure_call_setter: "pure_outcome h (call_setter s self h)"
  by (cases s)
     (simp_all add: pure_issuer_name pure_subject_name pure_public_key pure_serial_number
        pure_not_valid_before pure_not_valid_after pure_add_extension pure_csr_subject_name
        pure_csr_add_extension)

lemma call_setter_grows: "\<exists>new. snd (call_setter s self h) = h @ new"
  using pure_call_setter [of h s self]
  by (cases "call_setter s self h") (auto simp: pure_outcome_def split: sum.splits)

lemma run_setters_grows: "\<exists>new. run_setters calls h = h @ new"
proof (induction calls arbitrary: h)
  case Nil
  then show ?case by simp
next
  case (Cons c calls)
  obtain self s where c: "c = (self, s)" by (cases c)
  obtain n1 where n1: "snd (call_setter s self h) = h @ n1"
    using call_setter_grows by blast
  obtain n2 where "run_setters calls (h @ n1) = (h @ n1) @ n2"
    using Cons.IH by blast
  then show ?case by (simp add: c n1)
qed

lemma lookup_append: "a < length h \<Longrightarrow> lookup (h @ new) a = lookup h a"
  by (simp add: lookup_def nth_append)

lemma lookup_Some_append: "lookup h a = Some x \<Longrightarrow> lookup (h @ new) a = Some x"
  by (auto simp: lookup_def nth_append split: if_splits)

lemma get_list_append: "get_list h a = Some xs \<Longrightarrow> get_list (h @ new) a = Some xs"
  by (auto simp: get_list_def lookup_Some_append split: option.splits obj.splits)

lemma view_append: "view h a = Some v \<Longrightarrow> view (h @ new) a = Some v"
  unfolding view_def
  by (auto simp: lookup_Some_append get_list_append split: option.splits obj.splits)

text \<open>
  Claim C8. A call of a setter of either builder changes no object of the store: when
  it fails the store is as it was, and when it succeeds the store has only grown at the
  end and the call returns the address of a new builder there. So after any sequence of
  setter calls, on whichever builders, every object that existed before is unchanged, and
  whatever could be read from a builder before (its attributes and the contents of its
  extension list) is read from it afterwards.
\<close>

theorem setters_pure:
  "pure_outcome h (call_setter s self h)
   \<and> (\<forall>a. a < length h \<longrightarrow> lookup (snd (call_setter s self h)) a = lookup h a)
   \<and> (\<forall>a. a < length h \<longrightarrow> lookup (run_setters calls h) a = lookup h a)
   \<and> (\<forall>a v. view h a = Some v \<longrightarrow> view (run_setters calls h) a = Some v)"
proof (intro conjI allI impI)
  show "pure_outcome h (call_setter s self h)" by (rule pure_call_setter)
next
  fix a assume "a < length h"
  then show "lookup (snd (call_setter s self h)) a = lookup h a"
    using call_setter_grows [of s self h] by (auto simp: lookup_append)
next
  fix a assume "a < length h"
  then show "lookup (run_setters calls h) a = lookup h a"
    using run_setters_grows [of calls h] by (auto simp: lookup_append)
next
  fix a v assume "view h a = Some v"
  then show "view (run_setters calls h) a = Some v"
    using run_setters_grows [of calls h] by (auto simp: view_append)
qed

lemma two_serial_numbers:
  "run_setters [(2, Serial_number (PyInt 1)), (2, Serial_number (PyInt 2))]
       (snd new_CertificateBuilder)
     = [ListObj [], ListObj [],
        CertificateBuilderObj
          \<lparr>cb_version = v3, cb_issuer_name = PyNone, cb_subject_name = PyNone,
           cb_public_key = PyNone, cb_serial_number = PyNone,
           cb_not_valid_before = PyNone, cb_not_valid_after = PyNone, cb_extensions = 1\<rparr>,
        CertificateBuilderObj
          \<lparr>cb_version = v3, cb_issuer_name = PyNone, cb_subject_name = PyNone,
           cb_public_key = PyNone, cb_serial_number = PyInt 1,
           cb_not_valid_before = PyNone, cb_not_valid_after = PyNone, cb_extensions = 1\<rparr>,
        CertificateBuilderObj
          \<lparr>cb_version = v3, cb_issuer_name = PyNone, cb_subject_name = PyNone,
           cb_public_key = PyNone, cb_serial_number = PyInt 2,
           cb_not_valid_before = PyNone, cb_not_valid_after = PyNone, cb_extensions = 1\<rparr>]"
  by (simp add: new_CertificateBuilder_eq CertificateBuilder_serial_number_def
        get_CertificateBuilder_def lookup_def bit_length_gt CertificateBuilder_init_def
        alloc_def)

text \<open>
  Two builders made from one base with the serial numbers 1 and 2: after a subject name
  and an extension are set on the first, the second reads as before.
\<close>

theorem setters_pure_witness:
  "view (run_setters [(2, Serial_number (PyInt 1)), (2, Serial_number (PyInt 2))]
           (snd new_CertificateBuilder)) 4
     = Some (CertificateBuilderView
          \<lparr>cb_version = v3, cb_issuer_name = PyNone, cb_subject_name = PyNone,
           cb_public_key = PyNone, cb_serial_number = PyInt 2,
           cb_not_valid_before = PyNone, cb_not_valid_after = PyNone, cb_extensions = 1\<rparr> [])
   \<and> view (run_setters [(3, Subject_name (PyName (Name []))),
                          (3, Add_extension OCSPNoCheck (PyBool False))]
            (run_setters [(2, Serial_number (PyInt 1)), (2, Serial_number (PyInt 2))]
               (snd new_CertificateBuilder))) 4
     = Some (CertificateBuilderView
          \<lparr>cb_version = v3, cb_issuer_name = PyNone, cb_subject_name = PyNone,
           cb_public_key = PyNone, cb_serial_number = PyInt 2,
           cb_not_valid_before = PyNone, cb_not_valid_after = PyNone, cb_extensions = 1\<rparr> [])
   \<and> (2::nat) < length (snd new_CertificateBuilder)
   \<and> lookup (snd (call_setter (Serial_number (PyInt 1)) 2 (snd new_CertificateBuilder))) 2
     = lookup (snd new_CertificateBuilder) 2"
proof -
  let ?h = "run_setters [(2, Serial_number (PyInt 1)), (2, Serial_number (PyInt 2))]
              (snd new_CertificateBuilder)"
  let ?v = "CertificateBuilderView
          \<lparr>cb_version = v3, cb_issuer_name = PyNone, cb_subject_name = PyNone,
           cb_public_key = PyNone, cb_serial_number = PyInt 2,
           cb_not_valid_before = PyNone, cb_not_valid_after = PyNone, cb_extensions = 1\<rparr> []"
  have v: "view ?h 4 = Some ?v"
    unfolding two_serial_numbers by (simp add: view_def lookup_def get_list_def)
  have l: "(2::nat) < length (snd new_CertificateBuilder)"
    by (simp add: new_CertificateBuilder_eq)
  have v': "view (run_setters [(3, Subject_name (PyName (Name []))),
                          (3, Add_extension OCSPNoCheck (PyBool False))] ?h) 4 = Some ?v"
    using setters_pure [of ?h "Serial_number (PyInt 1)" 2
            "[(3, Subject_name (PyName (Name []))), (3, Add_extension OCSPNoCheck (PyBool False))]",
          THEN conjunct2, THEN conjunct2, THEN conjunct2, rule_format, OF v] .
  have k: "lookup (snd (call_setter (Serial_number (PyInt 1)) 2 (snd new_CertificateBuilder))) 2
     = lookup (snd new_CertificateBuilder) 2"
    using setters_pure [of "snd new_CertificateBuilder" "Serial_number (PyInt 1)" 2 "[]",
          THEN conjunct2, THEN conjunct1, rule_format, OF l] .
  from v v' l k show ?thesis by blast
qed

subsection \<open>The kinds of general names\<close>






subsection \<open>Key usage\<close>

text \<open>
  Claim C10. The constructor of \<^verbatim>\<open>KeyUsage\<close> raises \<^verbatim>\<open>ValueError\<close> exactly when
  \<^verbatim>\<open>key_agreement\<close> is false and \<^verbatim>\<open>encipher_only\<close> or \<^verbatim>\<open>decipher_only\<close> is true; so in
  every instance it returns, the two are false whenever \<^verbatim>\<open>key_agreement\<close> is false, and
  reading them then raises.
\<close>

theorem KeyUsage_invariant:
  "(KeyUsage_init ds cc ke de ka kcs cs eo dc =
      Inl (ValueError ''encipher_only and decipher_only can only be true when key_agreement is true''))
     = (\<not> truthy ka \<and> (truthy eo \<or> truthy dc))
   \<and> (\<forall>ku. KeyUsage_init ds cc ke de ka kcs cs eo dc = Inr ku \<longrightarrow>
         ku = KeyUsage ds cc ke de ka kcs cs eo dc
         \<and> (\<not> truthy ka \<longrightarrow>
               \<not> truthy eo \<and> \<not> truthy dc
               \<and> KeyUsage_encipher_only ku =
                   Inl (ValueError ''encipher_only is undefined unless key_agreement is true'')
               \<and> KeyUsage_decipher_only ku =
                   Inl (ValueError ''decipher_only is undefined unless key_agreement is true'')))"
  by (auto simp: KeyUsage_init_def)

theorem KeyUsage_invariant_witness:
  "KeyUsage_init (PyBool True) (PyBool False) (PyBool False) (PyBool False) (PyBool False)
       (PyBool False) (PyBool False) (PyBool False) (PyBool False)
     = Inr (KeyUsage (PyBool True) (PyBool False) (PyBool False) (PyBool False) (PyBool False)
              (PyBool False) (PyBool False) (PyBool False) (PyBool False))
   \<and> \<not> truthy (PyBool False)
   \<and> KeyUsage_encipher_only (KeyUsage (PyBool True) (PyBool False) (PyBool False) (PyBool False)
        (PyBool False) (PyBool False) (PyBool False) (PyBool False) (PyBool False))
       = Inl (ValueError ''encipher_only is undefined unless key_agreement is true'')"
  using KeyUsage_invariant [of "PyBool True" "PyBool False" "PyBool False" "PyBool False"
      "PyBool False" "PyBool False" "PyBool False" "PyBool False" "PyBool False"]
  by (simp add: KeyUsage_init_def)

end
